theory Spec2Isabelle
  imports Main "HOL-Library.AList"
begin

section \<open>Strings and paths\<close>

text \<open>
  Python's \<open>str.startswith\<close>, \<open>str.endswith\<close>, \<open>sub in s\<close> and \<open>str.strip\<close>,
  on strings of 8-bit characters.
\<close>

definition startswith :: "string \<Rightarrow> string \<Rightarrow> bool" where
  "startswith s p = (take (length p) s = p)"

definition endswith :: "string \<Rightarrow> string \<Rightarrow> bool" where
  "endswith s p = (length p \<le> length s \<and> drop (length s - length p) s = p)"

fun str_in :: "string \<Rightarrow> string \<Rightarrow> bool" where
  "str_in sub [] = (sub = [])"
| "str_in sub (c # cs) = (startswith (c # cs) sub \<or> str_in sub cs)"

definition isspace :: "char \<Rightarrow> bool" where
  "isspace c = (of_char c \<in> {9, 10, 11, 12, 13, 28, 29, 30, 31, 32, 133, 160 :: nat})"

definition strip :: "string \<Rightarrow> string" where
  "strip s = rev (dropWhile isspace (rev (dropWhile isspace s)))"

text \<open>
  \<open>posixpath.join\<close> for two components and \<open>posixpath.basename\<close>. Paths are compared as
  strings: no symbolic links and no normalisation of \<open>.\<close>, \<open>..\<close> or doubled separators.
\<close>

type_synonym path = string

definition os_path_join :: "path \<Rightarrow> string \<Rightarrow> path" where
  "os_path_join a b =
     (if startswith b ''/'' then b
      else if a = [] \<or> endswith a ''/'' then a @ b
      else a @ ''/'' @ b)"

definition os_path_basename :: "path \<Rightarrow> string" where
  "os_path_basename p = rev (takeWhile (\<lambda>c. c \<noteq> CHR ''/'') (rev p))"

text \<open>
  \<open>datetime.now().strftime("%Y%m%d_%H%M%S")\<close>: zero-padded decimal fields (four digits
  for the year, which \<open>datetime\<close> keeps below 10000, two for the others).
\<close>

record datetime =
  year :: nat
  month :: nat
  day :: nat
  hour :: nat
  minute :: nat
  second :: nat

definition digit :: "nat \<Rightarrow> char" where
  "digit n = char_of (48 + n mod 10)"

fun zero_padded :: "nat \<Rightarrow> nat \<Rightarrow> string" where
  "zero_padded 0 n = []"
| "zero_padded (Suc w) n = zero_padded w (n div 10) @ [digit n]"

definition strftime :: "datetime \<Rightarrow> string" where
  "strftime dt =
     zero_padded 4 (year dt) @ zero_padded 2 (month dt) @ zero_padded 2 (day dt) @ ''_'' @
     zero_padded 2 (hour dt) @ zero_padded 2 (minute dt) @ zero_padded 2 (second dt)"

section \<open>The local file store\<close>

text \<open>
  A regular file has a content, a permission mode and a modification time (only the order of
  modification times is used). The store is an association list from paths to files, in the
  order \<open>os.listdir\<close> reports them. Directories are implicit: \<open>os.makedirs(..., exist_ok=True)\<close>
  changes nothing in the store. Every file operation raises (\<open>None\<close>) when the file it needs
  is not in the store. The operations on the installed configuration (\<open>os.remove\<close>,
  \<open>shutil.move\<close> and \<open>os.chmod\<close> on the target path) and the copies made by
  \<open>shutil.copy2\<close> may in addition raise \<open>OSError\<close> as the environment says; an operation on
  a staging file, which the run has written itself just before, does not.
\<close>

type_synonym bytes = "char list"

record regfile =
  content :: bytes
  mode :: nat
  mtime :: int

type_synonym store = "(path \<times> regfile) list"

definition os_path_exists :: "store \<Rightarrow> path \<Rightarrow> bool" where
  "os_path_exists st p = (map_of st p \<noteq> None)"

definition os_path_getsize :: "store \<Rightarrow> path \<Rightarrow> nat option" where
  "os_path_getsize st p = map_option (\<lambda>f. length (content f)) (map_of st p)"

definition os_path_getmtime :: "store \<Rightarrow> path \<Rightarrow> int option" where
  "os_path_getmtime st p = map_option mtime (map_of st p)"

definition os_remove :: "path \<Rightarrow> store \<Rightarrow> store option" where
  "os_remove p st = (if os_path_exists st p then Some (AList.delete p st) else None)"

definition os_chmod :: "path \<Rightarrow> nat \<Rightarrow> store \<Rightarrow> store option" where
  "os_chmod p m st =
     (case map_of st p of
        None \<Rightarrow> None
      | Some f \<Rightarrow> Some (AList.update p (f\<lparr>mode := m\<rparr>) st))"

definition shutil_move :: "path \<Rightarrow> path \<Rightarrow> store \<Rightarrow> store option" where
  "shutil_move src dst st =
     (case map_of st src of
        None \<Rightarrow> None
      | Some f \<Rightarrow> Some (AList.update dst f (AList.delete src st)))"

text \<open>
  \<open>open(p, 'wb')\<close> followed by writing \<open>bs\<close>: an existing file is truncated and keeps its
  mode, a new one gets the mode the process creates files with.
\<close>

definition write_file :: "nat \<Rightarrow> int \<Rightarrow> path \<Rightarrow> bytes \<Rightarrow> store \<Rightarrow> store" where
  "write_file cmode t p bs st =
     (case map_of st p of
        None \<Rightarrow> AList.update p \<lparr>content = bs, mode = cmode, mtime = t\<rparr> st
      | Some f \<Rightarrow> AList.update p (f\<lparr>content := bs, mtime := t\<rparr>) st)"

text \<open>
  \<open>shutil.copy2(src, dst)\<close> copies content, mode and modification time. It raises when the
  source is missing; otherwise the environment decides: the copy is done, or it raises having
  written nothing (\<open>Copy_raised None\<close>: the source could not be read, the destination could
  not be created) or having written a part (\<open>Copy_raised (Some bs)\<close>).
\<close>

datatype copy_io = Copy_done | Copy_raised "bytes option"

definition shutil_copy2 :: "copy_io \<Rightarrow> nat \<Rightarrow> int \<Rightarrow> path \<Rightarrow> path \<Rightarrow> store \<Rightarrow> bool \<times> store" where
  "shutil_copy2 io cmode t src dst st =
     (case map_of st src of
        None \<Rightarrow> (False, st)
      | Some f \<Rightarrow>
          (case io of
             Copy_done \<Rightarrow> (True, AList.update dst f st)
           | Copy_raised None \<Rightarrow> (False, st)
           | Copy_raised (Some bs) \<Rightarrow> (False, write_file cmode t dst bs st)))"

text \<open>
  \<open>os.listdir(d)\<close>: the names of the files directly inside directory \<open>d\<close>.
\<close>

definition dir_prefix :: "path \<Rightarrow> string" where
  "dir_prefix d = (if endswith d ''/'' then d else d @ ''/'')"

definition os_listdir :: "store \<Rightarrow> path \<Rightarrow> string list" where
  "os_listdir st d =
     filter (\<lambda>n. n \<noteq> [] \<and> CHR ''/'' \<notin> set n)
       (map (\<lambda>p. drop (length (dir_prefix d)) p)
          (filter (\<lambda>p. startswith p (dir_prefix d)) (map fst st)))"

section \<open>Configuration, environment and run state\<close>

text \<open>
  The options of \<open>config.yml\<close> the update workflow reads. An option that the code reads with
  \<open>.get(key, default)\<close> is optional here and the default is applied where the code applies it.
\<close>

record config =
  remote_path :: string
  remote_filename :: string
  local_openvpn_path :: string
  local_config_filename :: string
  backup_path :: "string option"
  restart_openvpn :: "bool option"
  openvpn_service_name :: "string option"
  create_backup :: "bool option"
  auto_rollback :: "bool option"
  check_connectivity :: "bool option"
  max_connection_attempts :: "int option"
  retry_interval :: "nat option"

definition get_default :: "'a option \<Rightarrow> 'a \<Rightarrow> 'a" where
  "get_default v d = (case v of None \<Rightarrow> d | Some x \<Rightarrow> x)"

text \<open>
  What a run does to the outside world, in order: FTP commands, child processes, sleeps, and
  the log lines that mark a decision of the workflow.
\<close>

datatype logmsg =
    Local_missing
  | Sizes_differ
  | Hashes_differ
  | Config_up_to_date
  | Backup_failed
  | Backup_identified path
  | Download_empty
  | Config_updated
  | Rollback_started
  | Rollback_completed

datatype event =
    Ftp_connect
  | Ftp_list
  | Ftp_retr path
  | Ftp_quit
  | Exec "string list"
  | Sleep nat
  | Log logmsg

text \<open>
  \<open>subprocess.run(argv, capture_output=True, text=True, timeout=...)\<close> returns a completed
  process (return code, stdout, stderr), or raises \<open>TimeoutExpired\<close>, or raises something else
  (the program is missing).
\<close>

datatype proc = Completed int string string | Timeout_expired | Spawn_error

text \<open>
  \<open>_get_remote_file_info\<close>: the size found in the listing, or \<open>None\<close> (file not listed, FTP
  error), or an exception that is not an FTP error (a size field that is not a number).
\<close>

datatype remote_info = Remote_size nat | Remote_none | Remote_raised

text \<open>
  A \<open>RETR\<close> into a local file: nothing was opened (\<open>cwd\<close>, \<open>makedirs\<close> or \<open>open\<close>
  failed), or the transfer broke after the file was opened and a part was written, or the
  whole content was written.
\<close>

datatype retr = Retr_not_started | Retr_aborted bytes | Retr_complete bytes

text \<open>
  The environment answers every external call; an answer may depend on everything the run
  did before (the list of events so far).
\<close>

datatype io_op = Op_remove path | Op_move path path | Op_chmod path nat

record env =
  ftp_connect :: bool
  ftp_list :: "event list \<Rightarrow> string \<Rightarrow> string \<Rightarrow> remote_info"
  ftp_retr :: "event list \<Rightarrow> string \<Rightarrow> string \<Rightarrow> retr"
  ftp_quit :: "event list \<Rightarrow> bool"
  subprocess_run :: "event list \<Rightarrow> string list \<Rightarrow> proc"
  copy2_io :: "event list \<Rightarrow> path \<Rightarrow> path \<Rightarrow> copy_io"
  os_error :: "event list \<Rightarrow> io_op \<Rightarrow> bool"
  md5 :: "bytes \<Rightarrow> string"
  now :: datetime
  now_mtime :: int
  create_mode :: nat

record state =
  fs :: store
  trace :: "event list"

definition emit :: "event \<Rightarrow> state \<Rightarrow> state" where
  "emit e s = s\<lparr>trace := trace s @ [e]\<rparr>"

text \<open>
  A call on the target path: it raises when the environment says so (\<open>os_error\<close>), and
  otherwise does what the store operation does.
\<close>

definition io_call :: "bool \<Rightarrow> 'a option \<Rightarrow> 'a option" where
  "io_call raises result = (if raises then None else result)"

section \<open>ServiceController: \<open>_restart_openvpn_service\<close>\<close>

definition restart_service_name :: "config \<Rightarrow> string" where
  "restart_service_name cfg = get_default (openvpn_service_name cfg) ''openvpn''"

definition systemctl_restart :: "string \<Rightarrow> string list" where
  "systemctl_restart service_name = [''systemctl'', ''restart'', service_name]"

definition service_restart :: "string \<Rightarrow> string list" where
  "service_restart service_name = [''service'', service_name, ''restart'']"

definition restart_openvpn_service :: "config \<Rightarrow> env \<Rightarrow> state \<Rightarrow> bool \<times> state" where
  "restart_openvpn_service cfg e s =
     (if \<not> get_default (restart_openvpn cfg) True then (True, s)
      else
        let service_name = restart_service_name cfg;
            s1 = emit (Exec (systemctl_restart service_name)) s
        in case subprocess_run e (trace s) (systemctl_restart service_name) of
             Timeout_expired \<Rightarrow> (False, s1)
           | Spawn_error \<Rightarrow> (False, s1)
           | Completed returncode out err \<Rightarrow>
               if returncode = 0 then (True, s1)
               else
                 let s2 = emit (Exec (service_restart service_name)) s1
                 in case subprocess_run e (trace s1) (service_restart service_name) of
                      Timeout_expired \<Rightarrow> (False, s2)
                    | Spawn_error \<Rightarrow> (False, s2)
                    | Completed returncode2 out2 err2 \<Rightarrow> (returncode2 = 0, s2))"

section \<open>ConnectivityVerifier: \<open>_check_openvpn_connectivity\<close>\<close>

text \<open>
  One pass through the body of the \<open>for attempt in range(1, max_attempts + 1)\<close> loop. The
  pass either returns from the function or goes on to the next attempt (by \<open>continue\<close>, or by
  falling out of the handler of a timeout or an error).
\<close>

datatype attempt_result = Return bool | Next_attempt

definition retry_or_fail :: "int \<Rightarrow> int \<Rightarrow> nat \<Rightarrow> state \<Rightarrow> attempt_result \<times> state" where
  "retry_or_fail attempt max_attempts interval s =
     (if attempt < max_attempts then (Next_attempt, emit (Sleep interval) s)
      else (Return False, s))"

definition after_exception :: "int \<Rightarrow> int \<Rightarrow> nat \<Rightarrow> state \<Rightarrow> attempt_result \<times> state" where
  "after_exception attempt max_attempts interval s =
     (if attempt < max_attempts then (Next_attempt, emit (Sleep interval) s)
      else (Next_attempt, s))"

definition check_service_name :: "config \<Rightarrow> string" where
  "check_service_name cfg = get_default (openvpn_service_name cfg) ''openvpn@client''"

definition systemctl_is_active :: "string \<Rightarrow> string list" where
  "systemctl_is_active service_name = [''systemctl'', ''is-active'', service_name]"

definition ip_link_show :: "string list" where
  "ip_link_show = [''ip'', ''link'', ''show'']"

definition journalctl_recent :: "string \<Rightarrow> string list" where
  "journalctl_recent service_name =
     [''journalctl'', ''-u'', service_name, ''--since'', ''1 minute ago'', ''--no-pager'']"

definition connectivity_attempt ::
  "config \<Rightarrow> env \<Rightarrow> int \<Rightarrow> nat \<Rightarrow> int \<Rightarrow> state \<Rightarrow> attempt_result \<times> state" where
  "connectivity_attempt cfg e max_attempts interval attempt s =
     (let service_name = check_service_name cfg;
          s1 = emit (Exec (systemctl_is_active service_name)) s
      in case subprocess_run e (trace s) (systemctl_is_active service_name) of
           Timeout_expired \<Rightarrow> after_exception attempt max_attempts interval s1
         | Spawn_error \<Rightarrow> after_exception attempt max_attempts interval s1
         | Completed returncode out err \<Rightarrow>
             if returncode \<noteq> 0 \<or> strip out \<noteq> ''active''
             then retry_or_fail attempt max_attempts interval s1
             else
               let s2 = emit (Sleep 5) s1;
                   s3 = emit (Exec ip_link_show) s2
               in case subprocess_run e (trace s2) ip_link_show of
                    Timeout_expired \<Rightarrow> after_exception attempt max_attempts interval s3
                  | Spawn_error \<Rightarrow> after_exception attempt max_attempts interval s3
                  | Completed returncode2 out2 err2 \<Rightarrow>
                      if str_in ''tun'' out2 \<or> str_in ''tap'' out2 then (Return True, s3)
                      else
                        let s4 = emit (Exec (journalctl_recent service_name)) s3
                        in case subprocess_run e (trace s3) (journalctl_recent service_name) of
                             Timeout_expired \<Rightarrow> after_exception attempt max_attempts interval s4
                           | Spawn_error \<Rightarrow> after_exception attempt max_attempts interval s4
                           | Completed returncode3 out3 err3 \<Rightarrow>
                               if str_in ''ERROR'' out3 \<or> str_in ''FATAL'' out3
                               then retry_or_fail attempt max_attempts interval s4
                               else (Return True, s4))"

fun connectivity_loop ::
  "config \<Rightarrow> env \<Rightarrow> int \<Rightarrow> nat \<Rightarrow> int list \<Rightarrow> state \<Rightarrow> bool \<times> state" where
  "connectivity_loop cfg e max_attempts interval [] s = (False, s)"
| "connectivity_loop cfg e max_attempts interval (attempt # rest) s =
     (case connectivity_attempt cfg e max_attempts interval attempt s of
        (Return b, s') \<Rightarrow> (b, s')
      | (Next_attempt, s') \<Rightarrow> connectivity_loop cfg e max_attempts interval rest s')"

definition check_openvpn_connectivity :: "config \<Rightarrow> env \<Rightarrow> state \<Rightarrow> bool \<times> state" where
  "check_openvpn_connectivity cfg e s =
     (let max_attempts = get_default (max_connection_attempts cfg) 3;
          interval = get_default (retry_interval cfg) 10
      in connectivity_loop cfg e max_attempts interval [1..max_attempts] s)"

section \<open>LocalArtifactStore: backups, download, install and restore\<close>

text \<open>
  \<open>_create_backup\<close>. Nothing is done (and \<open>True\<close> returned) when \<open>backup_path\<close> is absent
  or empty. Any exception, from \<open>os.makedirs\<close> or from the copy, gives \<open>False\<close>.
\<close>

definition create_backup_op :: "config \<Rightarrow> env \<Rightarrow> path \<Rightarrow> state \<Rightarrow> bool \<times> state" where
  "create_backup_op cfg e file_path s =
     (case backup_path cfg of
        None \<Rightarrow> (True, s)
      | Some backup_config \<Rightarrow>
          if backup_config = [] then (True, s)
          else
            let timestamp = strftime (now e);
                filename = os_path_basename file_path;
                backup_file = os_path_join backup_config (filename @ ''.backup_'' @ timestamp)
            in case shutil_copy2 (copy2_io e (trace s) file_path backup_file)
                      (create_mode e) (now_mtime e) file_path backup_file (fs s) of
                 (ok, st) \<Rightarrow> (ok, s\<lparr>fs := st\<rparr>))"

text \<open>
  The search for the rollback candidate in \<open>_download_and_install_ovpn\<close>: the names in the
  backup directory that start with the target's base name and end with \<open>.backup_\<close>, sorted by
  modification time, newest first (\<open>list.sort\<close> is stable, also with \<open>reverse=True\<close>); the
  first one is taken. The outer \<open>None\<close> is an exception (\<open>os.path.getmtime\<close> on a missing file).
\<close>

definition backup_files_for :: "store \<Rightarrow> path \<Rightarrow> path \<Rightarrow> string list" where
  "backup_files_for st backup_config local_file_path =
     filter (\<lambda>f. startswith f (os_path_basename local_file_path) \<and> endswith f ''.backup_'')
       (os_listdir st backup_config)"

definition latest_backup :: "store \<Rightarrow> path \<Rightarrow> path \<Rightarrow> path option option" where
  "latest_backup st backup_config local_file_path =
     (let backup_files = backup_files_for st backup_config local_file_path
      in if backup_files = [] then Some None
         else if None \<in> set (map (\<lambda>x. os_path_getmtime st (os_path_join backup_config x)) backup_files)
         then None
         else
           (case sort_key (\<lambda>x. - get_default (os_path_getmtime st (os_path_join backup_config x)) 0)
                   backup_files of
              [] \<Rightarrow> None
            | newest # older \<Rightarrow> Some (Some (os_path_join backup_config newest))))"

text \<open>
  The first block of \<open>_download_and_install_ovpn\<close>: take a backup, then look for the rollback
  candidate. The test \<open>os.path.exists(backup_config)\<close> is true where it is made, since
  \<open>_create_backup\<close> has just returned \<open>True\<close> after \<open>os.makedirs(backup_config)\<close>.
\<close>

definition identify_backup ::
  "config \<Rightarrow> env \<Rightarrow> path \<Rightarrow> state \<Rightarrow> path option option \<times> state" where
  "identify_backup cfg e local_file_path s =
     (if get_default (create_backup cfg) True then
        if os_path_exists (fs s) local_file_path then
          (case create_backup_op cfg e local_file_path s of
             (False, s1) \<Rightarrow> (Some None, emit (Log Backup_failed) s1)
           | (True, s1) \<Rightarrow>
               (case backup_path cfg of
                  None \<Rightarrow> (Some None, s1)
                | Some backup_config \<Rightarrow>
                    if backup_config = [] then (Some None, s1)
                    else
                      (case latest_backup (fs s1) backup_config local_file_path of
                         None \<Rightarrow> (None, s1)
                       | Some None \<Rightarrow> (Some None, s1)
                       | Some (Some backup_file) \<Rightarrow>
                           (Some (Some backup_file), emit (Log (Backup_identified backup_file)) s1))))
        else (Some None, s)
      else (Some None, s))"

text \<open>\<open>_download_ovpn_file\<close>: every FTP or local error gives \<open>False\<close>.\<close>

definition download_ovpn_file ::
  "env \<Rightarrow> string \<Rightarrow> string \<Rightarrow> path \<Rightarrow> state \<Rightarrow> bool \<times> state" where
  "download_ovpn_file e rpath filename local_path s =
     (let s1 = emit (Ftp_retr local_path) s
      in case ftp_retr e (trace s) rpath filename of
           Retr_not_started \<Rightarrow> (False, s1)
         | Retr_aborted part \<Rightarrow>
             (False, s1\<lparr>fs := write_file (create_mode e) (now_mtime e) local_path part (fs s1)\<rparr>)
         | Retr_complete bs \<Rightarrow>
             (True, s1\<lparr>fs := write_file (create_mode e) (now_mtime e) local_path bs (fs s1)\<rparr>))"

text \<open>
  The install block of \<open>_download_and_install_ovpn\<close>: refuse an empty download, else remove
  the old file, move the new one in and set mode \<open>0o600\<close>. Each of the three calls on the
  target path may raise; the exception goes to the handler of the function.
\<close>

datatype install_result = Installed | Refused | Install_raised

definition install_staged :: "env \<Rightarrow> path \<Rightarrow> state \<Rightarrow> install_result \<times> state" where
  "install_staged e local_file_path s =
     (let temp_file = local_file_path @ ''.new''
      in case os_path_getsize (fs s) temp_file of
           None \<Rightarrow> (Install_raised, s)
         | Some sz \<Rightarrow>
             if sz = 0 then
               (let s1 = emit (Log Download_empty) s
                in case os_remove temp_file (fs s1) of
                     None \<Rightarrow> (Install_raised, s1)
                   | Some st \<Rightarrow> (Refused, s1\<lparr>fs := st\<rparr>))
             else
               (case (if os_path_exists (fs s) local_file_path
                      then io_call (os_error e (trace s) (Op_remove local_file_path))
                             (os_remove local_file_path (fs s))
                      else Some (fs s)) of
                  None \<Rightarrow> (Install_raised, s)
                | Some st1 \<Rightarrow>
                    (case io_call (os_error e (trace s) (Op_move temp_file local_file_path))
                            (shutil_move temp_file local_file_path st1) of
                       None \<Rightarrow> (Install_raised, s\<lparr>fs := st1\<rparr>)
                     | Some st2 \<Rightarrow>
                         (case io_call (os_error e (trace s) (Op_chmod local_file_path 384))
                                 (os_chmod local_file_path 384 st2) of
                            None \<Rightarrow> (Install_raised, s\<lparr>fs := st2\<rparr>)
                          | Some st3 \<Rightarrow> (Installed, emit (Log Config_updated) (s\<lparr>fs := st3\<rparr>))))))"

text \<open>The \<open>except Exception\<close> handler of \<open>_download_and_install_ovpn\<close>.\<close>

definition install_exception_handler :: "path \<Rightarrow> state \<Rightarrow> bool \<times> state" where
  "install_exception_handler local_file_path s =
     (let temp_file = local_file_path @ ''.new''
      in if os_path_exists (fs s) temp_file
         then (case os_remove temp_file (fs s) of
                 None \<Rightarrow> (False, s)
               | Some st \<Rightarrow> (False, s\<lparr>fs := st\<rparr>))
         else (False, s))"

text \<open>\<open>_rollback_configuration\<close>: every exception gives \<open>False\<close>.\<close>

definition rollback_configuration ::
  "config \<Rightarrow> env \<Rightarrow> path \<Rightarrow> path \<Rightarrow> state \<Rightarrow> bool \<times> state" where
  "rollback_configuration cfg e backup_file current_file s0 =
     (let s = emit (Log Rollback_started) s0
      in if \<not> os_path_exists (fs s) backup_file then (False, s)
         else
           (case (if os_path_exists (fs s) current_file
                  then io_call (os_error e (trace s) (Op_remove current_file))
                         (os_remove current_file (fs s))
                  else Some (fs s)) of
              None \<Rightarrow> (False, s)
            | Some st1 \<Rightarrow>
                (case shutil_copy2 (copy2_io e (trace s) backup_file current_file)
                        (create_mode e) (now_mtime e) backup_file current_file st1 of
                   (False, st2) \<Rightarrow> (False, s\<lparr>fs := st2\<rparr>)
                 | (True, st2) \<Rightarrow>
                     (case io_call (os_error e (trace s) (Op_chmod current_file 384))
                             (os_chmod current_file 384 st2) of
                        None \<Rightarrow> (False, s\<lparr>fs := st2\<rparr>)
                      | Some st3 \<Rightarrow>
                          (case restart_openvpn_service cfg e (s\<lparr>fs := st3\<rparr>) of
                             (False, s') \<Rightarrow> (False, s')
                           | (True, s') \<Rightarrow> (True, emit (Log Rollback_completed) s'))))))"

section \<open>UpdateOrchestrator\<close>

text \<open>
  The last block of \<open>_download_and_install_ovpn\<close>: restart, verify, roll back. A rollback
  needs a rollback candidate (\<open>backup_file\<close> neither \<open>None\<close> nor empty) and \<open>auto_rollback\<close>.
\<close>

definition after_install ::
  "config \<Rightarrow> env \<Rightarrow> path \<Rightarrow> path option \<Rightarrow> state \<Rightarrow> bool \<times> state" where
  "after_install cfg e local_file_path backup_file s =
     (case restart_openvpn_service cfg e s of
        (False, s1) \<Rightarrow>
          (case backup_file of
             None \<Rightarrow> (False, s1)
           | Some b \<Rightarrow>
               if b \<noteq> [] \<and> get_default (auto_rollback cfg) True
               then rollback_configuration cfg e b local_file_path s1
               else (False, s1))
      | (True, s1) \<Rightarrow>
          if get_default (check_connectivity cfg) True then
            (case check_openvpn_connectivity cfg e s1 of
               (True, s2) \<Rightarrow> (True, s2)
             | (False, s2) \<Rightarrow>
                 (case backup_file of
                    None \<Rightarrow> (False, s2)
                  | Some b \<Rightarrow>
                      if get_default (auto_rollback cfg) True \<and> b \<noteq> []
                      then rollback_configuration cfg e b local_file_path s2
                      else (False, s2)))
          else (True, s1))"

definition download_and_install_ovpn ::
  "config \<Rightarrow> env \<Rightarrow> path \<Rightarrow> state \<Rightarrow> bool \<times> state" where
  "download_and_install_ovpn cfg e local_file_path s =
     (case identify_backup cfg e local_file_path s of
        (None, s1) \<Rightarrow> install_exception_handler local_file_path s1
      | (Some backup_file, s1) \<Rightarrow>
          (let temp_file = local_file_path @ ''.new''
           in case download_ovpn_file e (remote_path cfg) (remote_filename cfg) temp_file s1 of
                (False, s2) \<Rightarrow> (False, s2)
              | (True, s2) \<Rightarrow>
                  (case install_staged e local_file_path s2 of
                     (Install_raised, s3) \<Rightarrow> install_exception_handler local_file_path s3
                   | (Refused, s3) \<Rightarrow> (False, s3)
                   | (Installed, s3) \<Rightarrow> after_install cfg e local_file_path backup_file s3)))"

text \<open>
  \<open>_calculate_file_hash\<close>; the digest function of \<open>hashlib\<close> is a parameter of the
  environment. \<open>None\<close> is the exception of \<open>open\<close> on a missing file.
\<close>

definition calculate_file_hash :: "env \<Rightarrow> store \<Rightarrow> path \<Rightarrow> string option" where
  "calculate_file_hash e st file_path = map_option (\<lambda>f. md5 e (content f)) (map_of st file_path)"

text \<open>
  The \<open>finally: ftp.quit()\<close> of \<open>check_and_update_config\<close>: when \<open>quit\<close> raises, the
  exception replaces the value being returned and the outer handler returns \<open>False\<close>.
\<close>

definition with_ftp_quit :: "env \<Rightarrow> bool \<times> state \<Rightarrow> bool \<times> state" where
  "with_ftp_quit e r =
     (case r of
        (b, s) \<Rightarrow> if ftp_quit e (trace s) then (b, emit Ftp_quit s) else (False, emit Ftp_quit s))"

definition local_path_of :: "config \<Rightarrow> path" where
  "local_path_of cfg = os_path_join (local_openvpn_path cfg) (local_config_filename cfg)"

definition check_and_update_config :: "config \<Rightarrow> env \<Rightarrow> state \<Rightarrow> bool \<times> state" where
  "check_and_update_config cfg e s0 =
     (let s1 = emit Ftp_connect s0
      in if \<not> ftp_connect e then (False, s1)
         else with_ftp_quit e
           (let s2 = emit Ftp_list s1
            in case ftp_list e (trace s1) (remote_path cfg) (remote_filename cfg) of
                 Remote_raised \<Rightarrow> (False, s2)
               | Remote_none \<Rightarrow> (False, s2)
               | Remote_size remote_size \<Rightarrow>
                   (let local_file_path = local_path_of cfg
                    in case os_path_getsize (fs s2) local_file_path of
                         None \<Rightarrow>
                           download_and_install_ovpn cfg e local_file_path
                             (emit (Log Local_missing) s2)
                       | Some local_size \<Rightarrow>
                           if remote_size \<noteq> local_size
                           then download_and_install_ovpn cfg e local_file_path
                                  (emit (Log Sizes_differ) s2)
                           else
                             (let temp_file = local_file_path @ ''.temp''
                              in case download_ovpn_file e (remote_path cfg) (remote_filename cfg)
                                        temp_file s2 of
                                   (False, s3) \<Rightarrow> (False, s3)
                                 | (True, s3) \<Rightarrow>
                                     (case calculate_file_hash e (fs s3) local_file_path of
                                        None \<Rightarrow> (False, s3)
                                      | Some local_hash \<Rightarrow>
                                          (case calculate_file_hash e (fs s3) temp_file of
                                             None \<Rightarrow> (False, s3)
                                           | Some remote_hash \<Rightarrow>
                                               (case os_remove temp_file (fs s3) of
                                                  None \<Rightarrow> (False, s3)
                                                | Some st \<Rightarrow>
                                                    if local_hash \<noteq> remote_hash
                                                    then download_and_install_ovpn cfg e
                                                           local_file_path
                                                           (emit (Log Hashes_differ) (s3\<lparr>fs := st\<rparr>))
                                                    else (True, emit (Log Config_up_to_date)
                                                                  (s3\<lparr>fs := st\<rparr>)))))))))"

text \<open>
  \<open>main\<close>: the exit code. \<open>None\<close> for the configuration stands for every way of not getting an
  updater (the file is missing, it does not load, a required option is absent): exit code 1.
\<close>

definition main :: "config option \<Rightarrow> env \<Rightarrow> state \<Rightarrow> int \<times> state" where
  "main loaded e s =
     (case loaded of
        None \<Rightarrow> (1, s)
      | Some cfg \<Rightarrow>
          (case check_and_update_config cfg e s of
             (True, s') \<Rightarrow> (0, s')
           | (False, s') \<Rightarrow> (1, s')))"

section \<open>Predicates used in the statements\<close>

text \<open>
  A status query that reports the service inactive: the command completes and the verifier's
  own test (\<open>returncode != 0 or stdout.strip() != 'active'\<close>) holds.
\<close>

definition reports_inactive :: "proc \<Rightarrow> bool" where
  "reports_inactive p =
     (case p of
        Completed returncode out err \<Rightarrow> returncode \<noteq> 0 \<or> strip out \<noteq> ''active''
      | Timeout_expired \<Rightarrow> False
      | Spawn_error \<Rightarrow> False)"

text \<open>
  A name given by \<open>_create_backup\<close>: the base name of some file, then \<open>.backup_\<close>, then a
  timestamp in the format \<open>%Y%m%d_%H%M%S\<close>.
\<close>

definition made_by_backup :: "string \<Rightarrow> bool" where
  "made_by_backup n =
     (\<exists>file_path dt. n = os_path_basename file_path @ ''.backup_'' @ strftime dt)"

section \<open>Example worlds\<close>

definition example_config :: config where
  "example_config =
     \<lparr>remote_path = ''/vpn'', remote_filename = ''client.ovpn'',
      local_openvpn_path = ''/etc/openvpn'', local_config_filename = ''client.conf'',
      backup_path = Some ''/backup'', restart_openvpn = None, openvpn_service_name = None,
      create_backup = None, auto_rollback = None, check_connectivity = None,
      max_connection_attempts = Some 3, retry_interval = Some 0\<rparr>"

text \<open>
  An environment in which everything works: the remote file is \<open>new-config\<close>, every child
  process returns 0 with empty output, no file operation raises. The digest is the identity
  (the most discriminating digest there is).
\<close>

definition calm_env :: env where
  "calm_env =
     \<lparr>ftp_connect = True,
      ftp_list = (\<lambda>h p f. Remote_size 10),
      ftp_retr = (\<lambda>h p f. Retr_complete ''new-config''),
      ftp_quit = (\<lambda>h. True),
      subprocess_run = (\<lambda>h argv. Completed 0 [] []),
      copy2_io = (\<lambda>h src dst. Copy_done),
      os_error = (\<lambda>h op. False),
      md5 = (\<lambda>bs. bs),
      now = \<lparr>year = 2024, month = 1, day = 2, hour = 3, minute = 4, second = 5\<rparr>,
      now_mtime = 1000,
      create_mode = 420\<rparr>"

definition old_config_file :: regfile where
  "old_config_file = \<lparr>content = ''old-config'', mode = 384, mtime = 10\<rparr>"

definition installed_state :: state where
  "installed_state = \<lparr>fs = [(''/etc/openvpn/client.conf'', old_config_file)], trace = []\<rparr>"

text \<open>The primary restart command times out whenever it is run.\<close>

definition restart_timeout_env :: env where
  "restart_timeout_env = calm_env\<lparr>subprocess_run := (\<lambda>h argv. Timeout_expired)\<rparr>"

text \<open>Every child process returns 3 and prints \<open>inactive\<close>.\<close>

definition inactive_env :: env where
  "inactive_env = calm_env\<lparr>subprocess_run := (\<lambda>h argv. Completed 3 ''inactive'' [])\<rparr>"

text \<open>A host with no configuration installed yet.\<close>

definition empty_state :: state where
  "empty_state = \<lparr>fs = [], trace = []\<rparr>"

text \<open>The remote file is listed with 200 bytes.\<close>

definition bigger_remote_env :: env where
  "bigger_remote_env = calm_env\<lparr>ftp_list := (\<lambda>h p f. Remote_size 200)\<rparr>"

text \<open>The remote file has the content of the installed one.\<close>

definition same_content_env :: env where
  "same_content_env = calm_env\<lparr>ftp_retr := (\<lambda>h p f. Retr_complete ''old-config'')\<rparr>"

text \<open>The remote file is transferred completely and is empty.\<close>

definition empty_download_env :: env where
  "empty_download_env = calm_env\<lparr>ftp_retr := (\<lambda>h p f. Retr_complete [])\<rparr>"

text \<open>
  The new configuration has been installed and a file whose name ends with \<open>.backup_\<close>, holding
  the old configuration, lies in the backup directory.
\<close>

definition new_config_file :: regfile where
  "new_config_file = \<lparr>content = ''new-config'', mode = 384, mtime = 1000\<rparr>"

definition updated_state :: state where
  "updated_state =
     \<lparr>fs = [(''/etc/openvpn/client.conf'', new_config_file),
            (''/backup/client.conf.backup_'', old_config_file)],
      trace = []\<rparr>"

text \<open>Copies raise before anything is written (the source cannot be read).\<close>

definition unreadable_backup_env :: env where
  "unreadable_backup_env = calm_env\<lparr>copy2_io := (\<lambda>h src dst. Copy_raised None)\<rparr>"

text \<open>An empty download is staged beside the installed configuration.\<close>

definition staged_empty_state :: state where
  "staged_empty_state =
     \<lparr>fs = [(''/etc/openvpn/client.conf'', old_config_file),
            (''/etc/openvpn/client.conf.new'', \<lparr>content = [], mode = 420, mtime = 1000\<rparr>)],
      trace = []\<rparr>"

text \<open>Every transfer breaks after the first four bytes have been written.\<close>

definition broken_transfer_env :: env where
  "broken_transfer_env = calm_env\<lparr>ftp_retr := (\<lambda>h p f. Retr_aborted ''new-'')\<rparr>"

text \<open>
  A host whose backup directory holds, beside nothing else, a file named
  \<open>client.conf.backup_\<close> (put there by hand) with an older configuration.
\<close>

definition stray_backup_file :: regfile where
  "stray_backup_file = \<lparr>content = ''older-config'', mode = 416, mtime = 5\<rparr>"

definition stray_backup_state :: state where
  "stray_backup_state =
     \<lparr>fs = [(''/etc/openvpn/client.conf'', old_config_file),
            (''/backup/client.conf.backup_'', stray_backup_file)],
      trace = []\<rparr>"

text \<open>
  Restart commands fail until a rollback has started, and succeed from then on.
\<close>

definition recovering_env :: env where
  "recovering_env =
     calm_env\<lparr>subprocess_run :=
       (\<lambda>h argv. if Log Rollback_started \<in> set h then Completed 0 [] [] else Completed 1 [] [])\<rparr>"

text \<open>
  A host on which the backup operation has run three times before; the directory lists the
  backups in no particular order.
\<close>

definition backed_up_state :: state where
  "backed_up_state =
     \<lparr>fs = [(''/backup/client.conf.backup_20231230_010101'',
             \<lparr>content = ''config-a'', mode = 384, mtime = 1\<rparr>),
            (''/backup/client.conf.backup_20240101_120000'',
             \<lparr>content = ''config-c'', mode = 384, mtime = 3\<rparr>),
            (''/etc/openvpn/client.conf'', old_config_file),
            (''/backup/client.conf.backup_20231231_235959'',
             \<lparr>content = ''config-b'', mode = 384, mtime = 2\<rparr>)],
      trace = []\<rparr>"

text \<open>The primary restart command cannot be run.\<close>

definition spawn_error_env :: env where
  "spawn_error_env =
     calm_env\<lparr>subprocess_run :=
       (\<lambda>h argv. if argv = systemctl_restart ''openvpn'' then Spawn_error
                  else Completed 0 [] [])\<rparr>"

text \<open>Moving a file onto the target path raises.\<close>

definition move_fails_env :: env where
  "move_fails_env =
     calm_env\<lparr>os_error :=
       (\<lambda>h op. case op of Op_move src dst \<Rightarrow> True | Op_remove p \<Rightarrow> False
                 | Op_chmod p m \<Rightarrow> False)\<rparr>"

text \<open>Changing the mode of the target raises.\<close>

definition chmod_fails_env :: env where
  "chmod_fails_env =
     calm_env\<lparr>os_error :=
       (\<lambda>h op. case op of Op_chmod p m \<Rightarrow> True | Op_remove p \<Rightarrow> False
                 | Op_move src dst \<Rightarrow> False)\<rparr>"

text \<open>A complete download is staged beside the installed configuration.\<close>

definition staged_new_state :: state where
  "staged_new_state =
     \<lparr>fs = [(''/etc/openvpn/client.conf'', old_config_file),
            (''/etc/openvpn/client.conf.new'',
             \<lparr>content = ''new-config'', mode = 420, mtime = 1000\<rparr>)],
      trace = []\<rparr>"

section \<open>Facts about paths and the store\<close>

lemma map_of_write_file_other:
  "q \<noteq> p \<Longrightarrow> map_of (write_file cm t p bs st) q = map_of st q"
  by (simp add: write_file_def update_conv' split: option.splits)

lemma map_of_write_file_same:
  "\<exists>f. map_of (write_file cm t p bs st) p = Some f \<and> content f = bs"
  by (simp add: write_file_def update_conv' split: option.splits)

lemma map_of_copy2_other:
  "q \<noteq> dst \<Longrightarrow> map_of (snd (shutil_copy2 io cm t src dst st)) q = map_of st q"
  by (simp add: shutil_copy2_def update_conv' map_of_write_file_other
      split: option.splits copy_io.splits)

lemma digit_not_slash: "digit n \<noteq> CHR ''/''"
proof
  assume "digit n = CHR ''/''"
  then have "of_char (digit n) = (of_char (CHR ''/'') :: nat)" by simp
  then show False by (simp add: digit_def)  
qed

lemma zero_padded_no_slash: "CHR ''/'' \<notin> set (zero_padded w n)"
  by (induction w arbitrary: n) (simp_all add: digit_not_slash [symmetric])

lemma strftime_no_slash: "CHR ''/'' \<notin> set (strftime dt)"
  by (simp add: strftime_def zero_padded_no_slash)

lemma basename_no_slash: "CHR ''/'' \<notin> set (os_path_basename p)"
  unfolding os_path_basename_def using set_takeWhileD by fastforce

lemma endswith_slash: "endswith a ''/'' \<Longrightarrow> \<exists>a'. a = a' @ ''/''"
  unfolding endswith_def
  by (metis append_take_drop_id)

lemma takeWhile_no_slash:
  assumes "CHR ''/'' \<notin> set n"
  shows "takeWhile (\<lambda>c. c \<noteq> CHR ''/'') (rev n) = rev n"
    and "takeWhile (\<lambda>c. c \<noteq> CHR ''/'') (rev n @ CHR ''/'' # xs) = rev n"
proof -
  have all: "\<forall>c \<in> set (rev n). c \<noteq> CHR ''/''"
    using assms by auto
  then show plain: "takeWhile (\<lambda>c. c \<noteq> CHR ''/'') (rev n) = rev n"
    by (simp only: takeWhile_eq_all_conv)
  have "takeWhile (\<lambda>c. c \<noteq> CHR ''/'') (rev n @ CHR ''/'' # xs) =
          takeWhile (\<lambda>c. c \<noteq> CHR ''/'') (rev n)"
    by (rule takeWhile_tail) simp
  with plain show "takeWhile (\<lambda>c. c \<noteq> CHR ''/'') (rev n @ CHR ''/'' # xs) = rev n"
    by simp
qed

lemma basename_append: "CHR ''/'' \<notin> set n \<Longrightarrow> os_path_basename (a @ ''/'' @ n) = n"
  by (simp add: os_path_basename_def takeWhile_no_slash)

lemma basename_plain: "CHR ''/'' \<notin> set n \<Longrightarrow> os_path_basename n = n"
  by (simp add: os_path_basename_def takeWhile_no_slash)

lemma basename_join: 
  assumes "CHR ''/'' \<notin> set n" shows "os_path_basename (os_path_join a n) = n"
proof -
  have ns: "\<not> startswith n ''/''"
    using assms by (cases n) (auto simp: startswith_def)
  show ?thesis
  proof (cases "a = []")
    case True
    then show ?thesis using ns assms by (simp add: os_path_join_def basename_plain)
  next
    case False
    show ?thesis
    proof (cases "endswith a ''/''")
      case True
      then obtain a' where "a = a' @ ''/''" using endswith_slash by blast
      then show ?thesis using ns assms True basename_append [of n a']
        by (simp add: os_path_join_def)
    next
      case e: False
      then show ?thesis using ns assms False basename_append [of n a]
        by (simp add: os_path_join_def)
    qed
  qed
qed

lemma backup_file_neq:
  "os_path_join backup_config (os_path_basename p @ ''.backup_'' @ strftime dt) \<noteq> p"
proof
  assume eq: "os_path_join backup_config (os_path_basename p @ ''.backup_'' @ strftime dt) = p"
  have "CHR ''/'' \<notin> set (os_path_basename p @ ''.backup_'' @ strftime dt)"
    using basename_no_slash [of p] strftime_no_slash [of dt] by simp
  then have "os_path_basename (os_path_join backup_config (os_path_basename p @ ''.backup_'' @ strftime dt))
     = os_path_basename p @ ''.backup_'' @ strftime dt"
    by (rule basename_join)
  with eq have "os_path_basename p = os_path_basename p @ ''.backup_'' @ strftime dt" by simp
  then show False by simp
qed

lemma create_backup_target:
  "map_of (fs (snd (create_backup_op cfg e p s))) p = map_of (fs s) p"
proof (cases "backup_path cfg")
  case None
  then show ?thesis by (simp add: create_backup_op_def)
next
  case (Some backup_config)
  define b where
    "b = os_path_join backup_config (os_path_basename p @ ''.backup_'' @ strftime (now e))"
  have "p \<noteq> b"
    unfolding b_def using backup_file_neq [of backup_config p "now e"] by auto
  then have "map_of (snd (shutil_copy2 io cm t p b (fs s))) p = map_of (fs s) p" for io cm t
    by (rule map_of_copy2_other)
  then have "shutil_copy2 io cm t p b (fs s) = (ok, st) \<Longrightarrow> map_of st p = map_of (fs s) p"
    for io cm t ok st
    by (metis snd_conv)
  then show ?thesis
    using Some by (auto simp add: create_backup_op_def Let_def b_def split: prod.splits)
qed

lemma identify_backup_target:
  "map_of (fs (snd (identify_backup cfg e p s))) p = map_of (fs s) p"
  using create_backup_target [of cfg e p s]
  by (auto simp: identify_backup_def emit_def split: option.splits prod.splits bool.splits)

section \<open>ServiceController: the fallback command\<close>

text \<open>
  C3 (as stated, refuted): the claim says that whenever the primary restart command fails,
  also by timeout, the legacy command is tried before the restart is reported failed. When
  \<open>systemctl restart\<close> times out, \<open>_restart_openvpn_service\<close> returns \<open>False\<close> from its
  \<open>except subprocess.TimeoutExpired\<close> handler and the \<open>service\<close> command is never run.
\<close>

theorem restart_timeout_skips_fallback:
  "fst (restart_openvpn_service example_config restart_timeout_env installed_state) = False \<and>
   Exec (service_restart ''openvpn'') \<notin>
     set (trace (snd (restart_openvpn_service example_config restart_timeout_env installed_state)))"
  by (simp add: restart_openvpn_service_def example_config_def restart_timeout_env_def
      calm_env_def installed_state_def get_default_def restart_service_name_def
      systemctl_restart_def service_restart_def emit_def)

text \<open>
  C3 (amended): with restart enabled, the legacy command is run exactly when the primary
  command completes with a non-zero return code, and the restart then succeeds exactly when
  the legacy command completes with return code 0. When the primary command times out or
  cannot be run, the restart fails at once; when it completes with return code 0, the restart
  succeeds at once; in both cases the primary command is the only one run.
\<close>

theorem restart_nonzero_tries_fallback:
  assumes "get_default (restart_openvpn cfg) True"
  shows "(\<forall>returncode out err.
            subprocess_run e (trace s) (systemctl_restart (restart_service_name cfg)) =
              Completed returncode out err \<and> returncode \<noteq> 0 \<longrightarrow>
            trace (snd (restart_openvpn_service cfg e s)) =
              trace s @ [Exec (systemctl_restart (restart_service_name cfg)),
                         Exec (service_restart (restart_service_name cfg))] \<and>
            fs (snd (restart_openvpn_service cfg e s)) = fs s \<and>
            (fst (restart_openvpn_service cfg e s) \<longleftrightarrow>
              (\<exists>out2 err2.
                 subprocess_run e (trace s @ [Exec (systemctl_restart (restart_service_name cfg))])
                   (service_restart (restart_service_name cfg)) = Completed 0 out2 err2))) \<and>
         (subprocess_run e (trace s) (systemctl_restart (restart_service_name cfg)) =
            Timeout_expired \<or>
          subprocess_run e (trace s) (systemctl_restart (restart_service_name cfg)) =
            Spawn_error \<longrightarrow>
            restart_openvpn_service cfg e s =
              (False,
               s\<lparr>trace := trace s @ [Exec (systemctl_restart (restart_service_name cfg))]\<rparr>)) \<and>
         (\<forall>out err.
            subprocess_run e (trace s) (systemctl_restart (restart_service_name cfg)) =
              Completed 0 out err \<longrightarrow>
            restart_openvpn_service cfg e s =
              (True,
               s\<lparr>trace := trace s @ [Exec (systemctl_restart (restart_service_name cfg))]\<rparr>))"
  using assms
  by (auto simp: restart_openvpn_service_def emit_def Let_def split: proc.splits)

theorem restart_nonzero_tries_fallback_witness:
  "trace (snd (restart_openvpn_service example_config inactive_env installed_state)) =
     [Exec (systemctl_restart ''openvpn''), Exec (service_restart ''openvpn'')] \<and>
   \<not> fst (restart_openvpn_service example_config inactive_env installed_state) \<and>
   restart_openvpn_service example_config restart_timeout_env installed_state =
     (False, installed_state\<lparr>trace := [Exec (systemctl_restart ''openvpn'')]\<rparr>) \<and>
   restart_openvpn_service example_config spawn_error_env installed_state =
     (False, installed_state\<lparr>trace := [Exec (systemctl_restart ''openvpn'')]\<rparr>) \<and>
   restart_openvpn_service example_config calm_env installed_state =
     (True, installed_state\<lparr>trace := [Exec (systemctl_restart ''openvpn'')]\<rparr>)"
proof -
  have enabled: "get_default (restart_openvpn example_config) True"
    by (simp add: example_config_def get_default_def)
  have name: "restart_service_name example_config = ''openvpn''"
    by (simp add: restart_service_name_def example_config_def get_default_def)
  have t: "trace installed_state = []"
    by (simp add: installed_state_def)
  show ?thesis
    using restart_nonzero_tries_fallback [OF enabled, of inactive_env installed_state]
      restart_nonzero_tries_fallback [OF enabled, of restart_timeout_env installed_state]
      restart_nonzero_tries_fallback [OF enabled, of spawn_error_env installed_state]
      restart_nonzero_tries_fallback [OF enabled, of calm_env installed_state]
    by (simp add: name t inactive_env_def restart_timeout_env_def spawn_error_env_def
        calm_env_def)
qed

section \<open>ConnectivityVerifier: the retry loop\<close>

lemma inactive_attempt:
  assumes "reports_inactive
             (subprocess_run e (trace s) (systemctl_is_active (check_service_name cfg)))"
  shows "connectivity_attempt cfg e max_attempts interval attempt s =
           retry_or_fail attempt max_attempts interval
             (emit (Exec (systemctl_is_active (check_service_name cfg))) s)"
  using assms
  by (auto simp: connectivity_attempt_def reports_inactive_def Let_def split: proc.splits)

text \<open>
  C9: with \<open>max_connection_attempts = 3\<close>, \<open>retry_interval = 0\<close> and a status query that
  always reports the service inactive, the verifier runs the status query three times (with
  the two zero-length sleeps between them), runs no other command, and returns \<open>False\<close>.
\<close>

theorem verifier_three_checks_then_disconnected:
  assumes "max_connection_attempts cfg = Some 3"
    and "retry_interval cfg = Some 0"
    and "\<forall>h. reports_inactive (subprocess_run e h (systemctl_is_active (check_service_name cfg)))"
  shows "check_openvpn_connectivity cfg e s =
           (False, s\<lparr>trace := trace s @
              [Exec (systemctl_is_active (check_service_name cfg)), Sleep 0,
               Exec (systemctl_is_active (check_service_name cfg)), Sleep 0,
               Exec (systemctl_is_active (check_service_name cfg))]\<rparr>)"
proof -
  have three: "[1..3] = [1, 2, 3::int]"
    by (simp add: upto_rec1)
  show ?thesis
    using assms
    by (simp add: check_openvpn_connectivity_def get_default_def three inactive_attempt
        retry_or_fail_def emit_def)
qed

theorem verifier_three_checks_then_disconnected_witness:
  "check_openvpn_connectivity example_config inactive_env installed_state =
     (False, installed_state\<lparr>trace :=
        [Exec (systemctl_is_active ''openvpn@client''), Sleep 0,
         Exec (systemctl_is_active ''openvpn@client''), Sleep 0,
         Exec (systemctl_is_active ''openvpn@client'')]\<rparr>)"
  using verifier_three_checks_then_disconnected [of example_config inactive_env installed_state]
  by (simp add: example_config_def inactive_env_def reports_inactive_def check_service_name_def
      get_default_def installed_state_def)

text \<open>
  C10: with \<open>max_connection_attempts\<close> at most 0 the loop body never runs: the verifier
  returns \<open>False\<close> and the state, with its record of commands run, is unchanged.
\<close>

theorem verifier_no_attempts_no_checks:
  assumes "max_connection_attempts cfg = Some n" and "n \<le> 0"
  shows "check_openvpn_connectivity cfg e s = (False, s)"
  using assms by (simp add: check_openvpn_connectivity_def get_default_def)

theorem verifier_no_attempts_no_checks_witness:
  "check_openvpn_connectivity (example_config\<lparr>max_connection_attempts := Some 0\<rparr>)
     calm_env installed_state = (False, installed_state)"
  using verifier_no_attempts_no_checks
          [of "example_config\<lparr>max_connection_attempts := Some 0\<rparr>" 0 calm_env installed_state]
  by simp

section \<open>LocalArtifactStore: a refused install leaves the target alone\<close>

lemma handler_effect:
  "fst (install_exception_handler p s) = False \<and>
   map_of (fs (snd (install_exception_handler p s))) (p @ ''.new'') = None \<and>
   map_of (fs (snd (install_exception_handler p s))) p = map_of (fs s) p"
  by (auto simp: install_exception_handler_def os_remove_def os_path_exists_def delete_conv' Let_def)

lemma install_staged_refused_keeps_target:
  assumes "fst (install_staged e p s) = Refused"
  shows "map_of (fs (snd (install_staged e p s))) p = map_of (fs s) p"
  using assms
  by (auto simp: install_staged_def os_path_getsize_def os_remove_def os_path_exists_def
      emit_def delete_conv' Let_def
      split: option.splits if_splits)

lemma install_staged_empty:
  assumes "map_of (fs s) (p @ ''.new'') = Some f" and "content f = []"
  shows "fst (install_staged e p s) = Refused \<and>
         map_of (fs (snd (install_staged e p s))) (p @ ''.new'') = None"
  using assms
  by (simp add: install_staged_def os_path_getsize_def os_remove_def os_path_exists_def
      emit_def delete_conv' Let_def)

text \<open>
  C6: when the download into the \<open>.new\<close> file completes with no bytes,
  \<open>_download_and_install_ovpn\<close> returns \<open>False\<close>, the \<open>.new\<close> file is gone afterwards, and
  the target path holds what it held before: the same file (content, mode and modification
  time) or, as before, nothing.
\<close>

theorem empty_download_refused:
  assumes "ftp_retr e (trace (snd (identify_backup cfg e p s))) (remote_path cfg)
             (remote_filename cfg) = Retr_complete []"
  shows "fst (download_and_install_ovpn cfg e p s) = False \<and>
         map_of (fs (snd (download_and_install_ovpn cfg e p s))) (p @ ''.new'') = None \<and>
         map_of (fs (snd (download_and_install_ovpn cfg e p s))) p = map_of (fs s) p"
proof -
  obtain b s1 where ib: "identify_backup cfg e p s = (b, s1)"
    by (cases "identify_backup cfg e p s")
  have tgt1: "map_of (fs s1) p = map_of (fs s) p"
    using identify_backup_target [of cfg e p s] ib by simp
  show ?thesis
  proof (cases b)
    case None
    then show ?thesis
      using ib tgt1 handler_effect [of p s1] by (simp add: download_and_install_ovpn_def)
  next
    case (Some backup_file)
    define s2 where
      "s2 = snd (download_ovpn_file e (remote_path cfg) (remote_filename cfg) (p @ ''.new'') s1)"
    have retr: "ftp_retr e (trace s1) (remote_path cfg) (remote_filename cfg) = Retr_complete []"
      using assms ib by simp
    have dl: "download_ovpn_file e (remote_path cfg) (remote_filename cfg) (p @ ''.new'') s1 =
                (True, s2)"
      using retr by (simp add: s2_def download_ovpn_file_def Let_def)
    have fs2: "fs s2 = write_file (create_mode e) (now_mtime e) (p @ ''.new'') [] (fs s1)"
      using retr by (simp add: s2_def download_ovpn_file_def emit_def Let_def)
    obtain f where f: "map_of (fs s2) (p @ ''.new'') = Some f" "content f = []"
      using map_of_write_file_same [of "create_mode e" "now_mtime e" "p @ ''.new''" "[]" "fs s1"]
        fs2
      by auto
    have tgt2: "map_of (fs s2) p = map_of (fs s1) p"
      using fs2 map_of_write_file_other [of p "p @ ''.new''"] by simp
    have r: "fst (install_staged e p s2) = Refused"
      and gone: "map_of (fs (snd (install_staged e p s2))) (p @ ''.new'') = None"
      using install_staged_empty [OF f] by simp_all
    have kept: "map_of (fs (snd (install_staged e p s2))) p = map_of (fs s2) p"
      using install_staged_refused_keeps_target [of e p s2] r by simp
    obtain s3 where s3: "install_staged e p s2 = (Refused, s3)"
      using r by (cases "install_staged e p s2") simp
    have "download_and_install_ovpn cfg e p s = (False, s3)"
      using ib Some dl s3 by (simp add: download_and_install_ovpn_def)
    then show ?thesis
      using gone kept tgt2 tgt1 s3 by simp
  qed
qed

theorem empty_download_refused_witness:
  "fst (download_and_install_ovpn example_config empty_download_env
          ''/etc/openvpn/client.conf'' installed_state) = False \<and>
   map_of (fs (snd (download_and_install_ovpn example_config empty_download_env
          ''/etc/openvpn/client.conf'' installed_state))) ''/etc/openvpn/client.conf.new'' = None \<and>
   map_of (fs (snd (download_and_install_ovpn example_config empty_download_env
          ''/etc/openvpn/client.conf'' installed_state))) ''/etc/openvpn/client.conf'' =
     Some old_config_file"
  using empty_download_refused
          [of empty_download_env example_config "''/etc/openvpn/client.conf''" installed_state]
  by (simp add: empty_download_env_def installed_state_def)

section \<open>LocalArtifactStore: what a failed install or restore leaves behind\<close>

lemma restart_fs: "fs (snd (restart_openvpn_service cfg e s)) = fs s"
  by (simp add: restart_openvpn_service_def emit_def Let_def split: proc.splits)

lemma install_staged_change_needs_content:
  assumes "map_of (fs (snd (install_staged e p s))) p \<noteq> map_of (fs s) p"
  shows "\<exists>f. map_of (fs s) (p @ ''.new'') = Some f \<and> content f \<noteq> []"
  using assms
  by (auto simp: install_staged_def os_path_getsize_def os_remove_def os_path_exists_def
      emit_def delete_conv' Let_def
      split: option.splits if_splits)

lemma install_staged_keeps_unless_move_raises:
  assumes "fst (install_staged e p s) \<noteq> Installed"
    and "os_path_exists (fs s) p"
    and "\<not> os_error e (trace s) (Op_move (p @ ''.new'') p)"
  shows "os_path_exists (fs (snd (install_staged e p s))) p"
  using assms
  by (auto simp: install_staged_def os_path_getsize_def os_remove_def os_path_exists_def
      shutil_move_def os_chmod_def io_call_def emit_def delete_conv' update_conv' Let_def
      split: option.splits if_splits)

lemma copy2_result:
  assumes "map_of st src = Some f" and "io \<noteq> Copy_raised None"
  shows "map_of (snd (shutil_copy2 io cm t src dst st)) dst \<noteq> None"
  using assms map_of_write_file_same [of cm t dst _ st]
  by (auto simp: shutil_copy2_def update_conv' split: copy_io.splits option.splits)

lemma rollback_keeps_target:
  assumes "b \<noteq> p" and "copy2_io e (trace s @ [Log Rollback_started]) b p \<noteq> Copy_raised None"
    and "os_path_exists (fs s) p"
  shows "os_path_exists (fs (snd (rollback_configuration cfg e b p s))) p"
proof (cases "map_of (fs s) b")
  case None
  then show ?thesis using assms(3)
    by (simp add: rollback_configuration_def emit_def os_path_exists_def Let_def)
next
  case (Some f)
  show ?thesis
  proof (cases "os_error e (trace s @ [Log Rollback_started]) (Op_remove p)")
    case True
    then show ?thesis
      using Some assms(3)
      by (simp add: rollback_configuration_def emit_def os_path_exists_def io_call_def Let_def)
  next
    case False
    define st1 where "st1 = AList.delete p (fs s)"
    define io where "io = copy2_io e (trace s @ [Log Rollback_started]) b p"
    obtain ok st2 where cp: "shutil_copy2 io (create_mode e) (now_mtime e) b p st1 = (ok, st2)"
      by (cases "shutil_copy2 io (create_mode e) (now_mtime e) b p st1")
    have src: "map_of st1 b = Some f"
      using Some assms(1) by (simp add: st1_def delete_conv')
    have ex2: "map_of st2 p \<noteq> None"
      using copy2_result [OF src, of io "create_mode e" "now_mtime e" p] assms(2) cp
      by (simp add: io_def)
    then obtain g where g: "map_of st2 p = Some g" by auto
    have rs: "restart_openvpn_service cfg e s' = (r, s'') \<Longrightarrow> fs s'' = fs s'" for s' r s''
      using restart_fs [of cfg e s'] by simp
    show ?thesis
      using Some assms(3) cp g False
      by (auto simp: rollback_configuration_def emit_def os_path_exists_def Let_def os_remove_def
          st1_def[symmetric] io_def[symmetric] os_chmod_def io_call_def update_conv'
          split: bool.splits prod.splits dest!: rs)
  qed
qed

lemma rollback_needs_backup:
  assumes "\<not> os_path_exists (fs s) b"
  shows "fs (snd (rollback_configuration cfg e b p s)) = fs s"
  using assms by (simp add: rollback_configuration_def emit_def Let_def)

text \<open>
  C7 (as stated, refuted): the claim says an install or a restore that fails never leaves the
  target missing. Both remove the target first and bring the replacement in afterwards.
  \<open>_rollback_configuration\<close> checks that the backup exists, removes the target and only then
  copies; when that copy raises before writing, the function returns \<open>False\<close> and the target,
  which existed, is gone. \<open>_download_and_install_ovpn\<close> checks the size of the \<open>.new\<close> file,
  removes the target and only then moves; when that move raises, the handler returns \<open>False\<close>
  and the target, which existed, is gone.
\<close>

theorem failed_restore_or_install_loses_target:
  "os_path_exists (fs updated_state) ''/etc/openvpn/client.conf'' \<and>
   os_path_exists (fs updated_state) ''/backup/client.conf.backup_'' \<and>
   fst (rollback_configuration example_config unreadable_backup_env
          ''/backup/client.conf.backup_'' ''/etc/openvpn/client.conf'' updated_state) = False \<and>
   \<not> os_path_exists
        (fs (snd (rollback_configuration example_config unreadable_backup_env
                    ''/backup/client.conf.backup_'' ''/etc/openvpn/client.conf'' updated_state)))
        ''/etc/openvpn/client.conf'' \<and>
   os_path_exists (fs installed_state) ''/etc/openvpn/client.conf'' \<and>
   fst (download_and_install_ovpn example_config move_fails_env ''/etc/openvpn/client.conf''
          installed_state) = False \<and>
   \<not> os_path_exists
        (fs (snd (download_and_install_ovpn example_config move_fails_env
                    ''/etc/openvpn/client.conf'' installed_state)))
        ''/etc/openvpn/client.conf''"
  by code_simp

text \<open>
  C7 (amended). The target is removed only once the replacement is confirmed: the install
  block changes the target path only when the \<open>.new\<close> file is present and not empty, and
  \<open>_rollback_configuration\<close> touches nothing when the backup is absent. An install refused
  for an empty download leaves the target path as it was. When the install block fails, a
  target that existed still exists provided the move of the \<open>.new\<close> file onto it does not
  raise; when \<open>_rollback_configuration\<close> fails, a target that existed still exists provided
  the backup is another file than the target and the copy of the backup does not raise before
  writing.
\<close>

theorem failed_install_or_restore_keeps_target:
  "(fst (install_staged e p s) = Refused \<longrightarrow>
      map_of (fs (snd (install_staged e p s))) p = map_of (fs s) p) \<and>
   (map_of (fs (snd (install_staged e p s))) p \<noteq> map_of (fs s) p \<longrightarrow>
      (\<exists>f. map_of (fs s) (p @ ''.new'') = Some f \<and> content f \<noteq> [])) \<and>
   (fst (install_staged e p s) \<noteq> Installed \<and> os_path_exists (fs s) p \<and>
    \<not> os_error e (trace s) (Op_move (p @ ''.new'') p) \<longrightarrow>
      os_path_exists (fs (snd (install_staged e p s))) p) \<and>
   (\<not> fst (rollback_configuration cfg e b p s) \<and> os_path_exists (fs s) p \<and> b \<noteq> p \<and>
    copy2_io e (trace s @ [Log Rollback_started]) b p \<noteq> Copy_raised None \<longrightarrow>
      os_path_exists (fs (snd (rollback_configuration cfg e b p s))) p) \<and>
   (\<not> os_path_exists (fs s) b \<longrightarrow> fs (snd (rollback_configuration cfg e b p s)) = fs s)"
  using install_staged_refused_keeps_target [of e p s]
    install_staged_change_needs_content [of e p s]
    install_staged_keeps_unless_move_raises [of e p s]
    rollback_keeps_target [of b p e s cfg] rollback_needs_backup [of s b cfg e p]
  by blast

theorem failed_install_or_restore_keeps_target_witness:
  "map_of (fs (snd (install_staged calm_env ''/etc/openvpn/client.conf'' staged_empty_state)))
     ''/etc/openvpn/client.conf'' = Some old_config_file \<and>
   (\<exists>f. map_of (fs staged_new_state) ''/etc/openvpn/client.conf.new'' = Some f \<and>
        content f \<noteq> []) \<and>
   fst (install_staged chmod_fails_env ''/etc/openvpn/client.conf'' staged_new_state) =
     Install_raised \<and>
   os_path_exists
     (fs (snd (install_staged chmod_fails_env ''/etc/openvpn/client.conf'' staged_new_state)))
     ''/etc/openvpn/client.conf'' \<and>
   \<not> fst (rollback_configuration example_config inactive_env
            ''/backup/client.conf.backup_'' ''/etc/openvpn/client.conf'' updated_state) \<and>
   os_path_exists
     (fs (snd (rollback_configuration example_config inactive_env
                 ''/backup/client.conf.backup_'' ''/etc/openvpn/client.conf'' updated_state)))
     ''/etc/openvpn/client.conf'' \<and>
   fs (snd (rollback_configuration example_config inactive_env
              ''/backup/missing'' ''/etc/openvpn/client.conf'' updated_state)) = fs updated_state"
proof -
  have refused:
    "fst (install_staged calm_env ''/etc/openvpn/client.conf'' staged_empty_state) = Refused"
    by code_simp
  have changed:
    "map_of (fs (snd (install_staged calm_env ''/etc/openvpn/client.conf'' staged_new_state)))
       ''/etc/openvpn/client.conf'' \<noteq>
     map_of (fs staged_new_state) ''/etc/openvpn/client.conf''"
    by code_simp
  have raised:
    "fst (install_staged chmod_fails_env ''/etc/openvpn/client.conf'' staged_new_state) =
       Install_raised"
    by code_simp
  have failed: "\<not> fst (rollback_configuration example_config inactive_env
            ''/backup/client.conf.backup_'' ''/etc/openvpn/client.conf'' updated_state)"
    by code_simp
  have pre: "os_path_exists (fs updated_state) ''/etc/openvpn/client.conf''"
    "os_path_exists (fs staged_new_state) ''/etc/openvpn/client.conf''"
    "\<not> os_path_exists (fs updated_state) ''/backup/missing''"
    "copy2_io inactive_env (trace updated_state @ [Log Rollback_started])
       ''/backup/client.conf.backup_'' ''/etc/openvpn/client.conf'' \<noteq> Copy_raised None"
    "\<not> os_error chmod_fails_env (trace staged_new_state)
         (Op_move (''/etc/openvpn/client.conf'' @ ''.new'') ''/etc/openvpn/client.conf'')"
    "map_of (fs staged_empty_state) ''/etc/openvpn/client.conf'' = Some old_config_file"
    by (simp_all add: updated_state_def staged_empty_state_def staged_new_state_def
        os_path_exists_def inactive_env_def chmod_fails_env_def calm_env_def)
  show ?thesis
    using failed_install_or_restore_keeps_target
            [of calm_env "''/etc/openvpn/client.conf''" staged_empty_state]
      failed_install_or_restore_keeps_target
            [of calm_env "''/etc/openvpn/client.conf''" staged_new_state]
      failed_install_or_restore_keeps_target
            [of chmod_fails_env "''/etc/openvpn/client.conf''" staged_new_state]
      failed_install_or_restore_keeps_target
            [of inactive_env "''/etc/openvpn/client.conf''" updated_state example_config
                "''/backup/client.conf.backup_''"]
      failed_install_or_restore_keeps_target
            [of inactive_env "''/etc/openvpn/client.conf''" updated_state example_config
                "''/backup/missing''"]
      refused changed raised failed pre
    by simp
qed

section \<open>UpdateOrchestrator: staging files after a broken transfer\<close>

text \<open>
  C4 (the code departs from the claim): a transfer that breaks after the local file was opened
  makes \<open>_download_ovpn_file\<close> return \<open>False\<close>, and both callers return at once. On a host
  with no configuration yet, the run ends with the partial \<open>.new\<close> file in place; on a host
  whose configuration has the remote size, it ends with the partial \<open>.temp\<close> file in place.
\<close>

theorem aborted_download_leaves_staging_file:
  "fst (check_and_update_config example_config broken_transfer_env empty_state) = False \<and>
   map_of (fs (snd (check_and_update_config example_config broken_transfer_env empty_state)))
     ''/etc/openvpn/client.conf.new'' = Some \<lparr>content = ''new-'', mode = 420, mtime = 1000\<rparr> \<and>
   fst (check_and_update_config example_config broken_transfer_env installed_state) = False \<and>
   map_of (fs (snd (check_and_update_config example_config broken_transfer_env installed_state)))
     ''/etc/openvpn/client.conf.temp'' = Some \<lparr>content = ''new-'', mode = 420, mtime = 1000\<rparr>"
  by code_simp

section \<open>Log lines of a run\<close>

lemma restart_log:
  "Log m \<in> set (trace (snd (restart_openvpn_service cfg e s))) \<longleftrightarrow> Log m \<in> set (trace s)"
  by (simp add: restart_openvpn_service_def emit_def Let_def split: proc.splits)

lemma attempt_log:
  "Log m \<in> set (trace (snd (connectivity_attempt cfg e mx iv a s))) \<longleftrightarrow> Log m \<in> set (trace s)"
  by (simp add: connectivity_attempt_def retry_or_fail_def after_exception_def emit_def Let_def
      split: proc.splits)

lemma loop_log:
  "Log m \<in> set (trace (snd (connectivity_loop cfg e mx iv as s))) \<longleftrightarrow> Log m \<in> set (trace s)"
proof (induction as arbitrary: s)
  case Nil
  then show ?case by simp
next
  case (Cons a as)
  obtain r s1 where a: "connectivity_attempt cfg e mx iv a s = (r, s1)"
    by (cases "connectivity_attempt cfg e mx iv a s")
  have "Log m \<in> set (trace s1) \<longleftrightarrow> Log m \<in> set (trace s)"
    using attempt_log [of m cfg e mx iv a s] a by simp
  then show ?case
    using a Cons.IH [of s1] by (cases r) simp_all
qed

lemma check_log:
  "Log m \<in> set (trace (snd (check_openvpn_connectivity cfg e s))) \<longleftrightarrow> Log m \<in> set (trace s)"
  by (simp add: check_openvpn_connectivity_def loop_log Let_def)

lemma create_backup_trace: "trace (snd (create_backup_op cfg e p s)) = trace s"
  by (simp add: create_backup_op_def Let_def split: option.splits prod.splits)

lemma identify_backup_log:
  assumes "Log m \<in> set (trace (snd (identify_backup cfg e p s)))"
  shows "Log m \<in> set (trace s) \<or> m = Backup_failed \<or> (\<exists>b. m = Backup_identified b)"
proof -
  obtain ok s1 where cb: "create_backup_op cfg e p s = (ok, s1)"
    by (cases "create_backup_op cfg e p s")
  have "trace s1 = trace s"
    using create_backup_trace [of cfg e p s] cb by simp
  then show ?thesis
    using assms cb
    by (auto simp: identify_backup_def emit_def split: if_splits option.splits bool.splits)
qed

lemma download_log:
  "Log m \<in> set (trace (snd (download_ovpn_file e rp rf lp s))) \<longleftrightarrow> Log m \<in> set (trace s)"
  by (simp add: download_ovpn_file_def emit_def Let_def split: retr.splits)

lemma install_staged_log:
  assumes "Log m \<in> set (trace (snd (install_staged e p s)))"
  shows "Log m \<in> set (trace s) \<or> m = Download_empty \<or> m = Config_updated"
  using assms
  by (auto simp: install_staged_def emit_def Let_def split: option.splits if_splits)

lemma handler_trace: "trace (snd (install_exception_handler p s)) = trace s"
  by (simp add: install_exception_handler_def Let_def split: option.splits)

lemma rollback_completed_log:
  assumes "Log Rollback_completed \<in> set (trace (snd (rollback_configuration cfg e b p s)))"
  shows "Log Rollback_completed \<in> set (trace s) \<or> fst (rollback_configuration cfg e b p s)"
proof (rule ccontr)
  assume "\<not> ?thesis"
  then have old: "Log Rollback_completed \<notin> set (trace s)"
    and failed: "\<not> fst (rollback_configuration cfg e b p s)"
    by simp_all
  have rs: "Log Rollback_completed \<notin> set (trace (snd (restart_openvpn_service cfg e s')))"
    if "Log Rollback_completed \<notin> set (trace s')" for s'
    using that restart_log [of Rollback_completed cfg e s'] by simp
  have "Log Rollback_completed \<notin> set (trace (snd (rollback_configuration cfg e b p s)))"
    using old failed
    apply (simp add: rollback_configuration_def emit_def Let_def
        split: if_splits option.splits prod.splits bool.splits)
    apply (auto dest!: arg_cong [where f = snd] simp: rs)
    done
  with assms show False by simp
qed

lemma after_install_completed_log:
  assumes "Log Rollback_completed \<in> set (trace (snd (after_install cfg e p bf s)))"
  shows "Log Rollback_completed \<in> set (trace s) \<or> fst (after_install cfg e p bf s)"
proof -
  obtain r1 s1 where r: "restart_openvpn_service cfg e s = (r1, s1)"
    by (cases "restart_openvpn_service cfg e s")
  have t1: "Log Rollback_completed \<in> set (trace s1) \<longleftrightarrow> Log Rollback_completed \<in> set (trace s)"
    using restart_log [of Rollback_completed cfg e s] r by simp
  obtain r2 s2 where c: "check_openvpn_connectivity cfg e s1 = (r2, s2)"
    by (cases "check_openvpn_connectivity cfg e s1")
  have t2: "Log Rollback_completed \<in> set (trace s2) \<longleftrightarrow> Log Rollback_completed \<in> set (trace s)"
    using check_log [of Rollback_completed cfg e s1] c t1 by simp
  show ?thesis
    using assms r c t1 t2 rollback_completed_log [of cfg e _ p s1] rollback_completed_log [of cfg e _ p s2]
    by (auto simp: after_install_def split: if_splits option.splits bool.splits)
qed


lemma download_and_install_completed_log:
  assumes "Log Rollback_completed \<in> set (trace (snd (download_and_install_ovpn cfg e p s)))"
  shows "Log Rollback_completed \<in> set (trace s) \<or> fst (download_and_install_ovpn cfg e p s)"
proof -
  obtain bf s1 where ib: "identify_backup cfg e p s = (bf, s1)"
    by (cases "identify_backup cfg e p s")
  have t1: "Log Rollback_completed \<in> set (trace s1) \<Longrightarrow> Log Rollback_completed \<in> set (trace s)"
    using identify_backup_log [of Rollback_completed cfg e p s] ib by auto
  obtain ok s2 where dl:
    "download_ovpn_file e (remote_path cfg) (remote_filename cfg) (p @ ''.new'') s1 = (ok, s2)"
    by (cases "download_ovpn_file e (remote_path cfg) (remote_filename cfg) (p @ ''.new'') s1")
  have t2: "Log Rollback_completed \<in> set (trace s2) \<Longrightarrow> Log Rollback_completed \<in> set (trace s1)"
    using download_log [of Rollback_completed e "remote_path cfg" "remote_filename cfg"
        "p @ ''.new''" s1] dl by simp
  obtain ir s3 where ins: "install_staged e p s2 = (ir, s3)"
    by (cases "install_staged e p s2")
  have t3: "Log Rollback_completed \<in> set (trace s3) \<Longrightarrow> Log Rollback_completed \<in> set (trace s2)"
    using install_staged_log [of Rollback_completed e p s2] ins by auto
  show ?thesis
  proof (cases bf)
    case None
    then show ?thesis
      using assms ib t1 handler_trace [of p s1] by (simp add: download_and_install_ovpn_def)
  next
    case (Some backup_file)
    show ?thesis
    proof (cases ok)
      case False
      then show ?thesis
        using assms ib Some dl t1 t2 by (simp add: download_and_install_ovpn_def)
    next
      case True
      show ?thesis
      proof (cases ir)
        case Installed
        then show ?thesis
          using assms ib Some dl True ins t1 t2 t3
            after_install_completed_log [of cfg e p backup_file s3]
          by (auto simp: download_and_install_ovpn_def)
      next
        case Refused
        then show ?thesis
          using assms ib Some dl True ins t1 t2 t3 by (simp add: download_and_install_ovpn_def)
      next
        case Install_raised
        then show ?thesis
          using assms ib Some dl True ins t1 t2 t3 handler_trace [of p s3]
          by (simp add: download_and_install_ovpn_def)
      qed
    qed
  qed
qed

lemma with_ftp_quit_ok:
  assumes "\<forall>h. ftp_quit e h"
  shows "with_ftp_quit e r = (fst r, emit Ftp_quit (snd r))"
  using assms by (cases r) (simp add: with_ftp_quit_def)

lemma check_and_update_completed_log:
  assumes "Log Rollback_completed \<in> set (trace (snd (check_and_update_config cfg e s)))"
    and "\<forall>h. ftp_quit e h"
  shows "Log Rollback_completed \<in> set (trace s) \<or> fst (check_and_update_config cfg e s)"
proof -
  have di: "Log Rollback_completed \<in> set (trace (snd (download_and_install_ovpn cfg e p s'))) \<Longrightarrow>
            \<not> fst (download_and_install_ovpn cfg e p s') \<Longrightarrow>
            Log Rollback_completed \<in> set (trace s')" for p s'
    using download_and_install_completed_log [of cfg e p s'] by blast
  have dl: "Log Rollback_completed \<in> set (trace (snd (download_ovpn_file e rp rf lp s'))) \<longleftrightarrow>
            Log Rollback_completed \<in> set (trace s')" for rp rf lp s'
    by (rule download_log)
  have dl': "download_ovpn_file e rp rf lp s' = (ok, s'') \<Longrightarrow>
             Log Rollback_completed \<in> set (trace s'') \<Longrightarrow> Log Rollback_completed \<in> set (trace s')"
    for rp rf lp s' ok s''
    using dl [of rp rf lp s'] by simp
  show ?thesis
    using assms(1)
    apply (simp add: check_and_update_config_def with_ftp_quit_ok [OF assms(2)] emit_def Let_def
        split: if_splits remote_info.splits option.splits prod.splits bool.splits)
    apply (auto dest!: di simp: emit_def)
    apply (auto dest!: dl')
    done
qed

section \<open>Exit code after a rollback\<close>

text \<open>
  Whenever a rollback completes (the line \<open>Rollback_completed\<close> is logged only when
  \<open>_rollback_configuration\<close> returns \<open>True\<close>) and closing the FTP session does not raise,
  \<open>main\<close> exits with code 0: the value of \<open>_rollback_configuration\<close> is returned by
  \<open>_download_and_install_ovpn\<close> as its own and passed on by \<open>check_and_update_config\<close>.
\<close>

lemma completed_rollback_exits_zero:
  assumes "Log Rollback_completed \<notin> set (trace s)"
    and "Log Rollback_completed \<in> set (trace (snd (main (Some cfg) e s)))"
    and "\<forall>h. ftp_quit e h"
  shows "fst (main (Some cfg) e s) = 0"
proof -
  obtain r s' where c: "check_and_update_config cfg e s = (r, s')"
    by (cases "check_and_update_config cfg e s")
  have "Log Rollback_completed \<in> set (trace s')"
    using assms(2) c by (cases r) (simp_all add: main_def)
  then have r
    using check_and_update_completed_log [of cfg e s] assms(1,3) c by simp
  then show ?thesis
    using c by (simp add: main_def)
qed

text \<open>
  C5 (the code departs from the claim): the claim says a run whose update fails after the
  install and whose rollback succeeds exits with a non-zero code. In this run the new
  configuration is installed, both restart commands fail, the rollback restores the file found
  in the backup directory and its restart succeeds; \<open>main\<close> exits with code 0, although
  \<open>check_and_update_config\<close> documents \<open>True\<close> as "the update was made or was not needed"
  and \<open>_download_and_install_ovpn\<close> documents it as "the installation succeeded".
\<close>

theorem rolled_back_run_exits_zero:
  "fst (main (Some example_config) recovering_env stray_backup_state) = 0 \<and>
   Log Config_updated \<in>
     set (trace (snd (main (Some example_config) recovering_env stray_backup_state))) \<and>
   Log Rollback_completed \<in>
     set (trace (snd (main (Some example_config) recovering_env stray_backup_state))) \<and>
   map_of (fs (snd (main (Some example_config) recovering_env stray_backup_state)))
     ''/etc/openvpn/client.conf'' = Some (stray_backup_file\<lparr>mode := 384\<rparr>)"
  by code_simp

section \<open>The search for the latest backup\<close>

text \<open>
  C1 (the code departs from the claim): the backup directory holds three backups made by
  earlier runs; \<open>_create_backup\<close> adds a fourth, named with the current time. The search keeps
  only names that end with \<open>.backup_\<close>; the names \<open>_create_backup\<close> gives end with the
  timestamp, so none is kept and no backup, let alone the newest, is selected.
\<close>

theorem latest_backup_misses_created_backups:
  "fst (create_backup_op example_config calm_env ''/etc/openvpn/client.conf'' backed_up_state) \<and>
   os_listdir
     (fs (snd (create_backup_op example_config calm_env ''/etc/openvpn/client.conf''
                 backed_up_state))) ''/backup'' =
     [''client.conf.backup_20231230_010101'', ''client.conf.backup_20240101_120000'',
      ''client.conf.backup_20231231_235959'', ''client.conf.backup_20240102_030405''] \<and>
   latest_backup
     (fs (snd (create_backup_op example_config calm_env ''/etc/openvpn/client.conf''
                 backed_up_state))) ''/backup'' ''/etc/openvpn/client.conf'' = Some None \<and>
   fst (identify_backup example_config calm_env ''/etc/openvpn/client.conf'' backed_up_state) =
     Some None"
  by code_simp

section \<open>Backups made by the backup operation are never rollback candidates\<close>

lemma digit_not_underscore: "digit n \<noteq> CHR ''_''"
proof
  assume "digit n = CHR ''_''"
  then have "of_char (digit n) = (of_char (CHR ''_'') :: nat)" by simp
  then show False by (simp add: digit_def)
qed

lemma strftime_last: "\<exists>xs. strftime dt = xs @ [digit (second dt)]"
proof -
  have "zero_padded 2 n = [digit (n div 10), digit n]" for n
    by (simp add: numeral_2_eq_2)
  then show ?thesis
    by (simp add: strftime_def)
qed

lemma endswith_last:
  assumes "endswith n p" and "p \<noteq> []"
  shows "last n = last p"
proof -
  have "drop (length n - length p) n = p"
    using assms(1) by (simp add: endswith_def)
  then have "n = take (length n - length p) n @ p"
    by (metis append_take_drop_id)
  then show ?thesis
    using assms(2) by (metis last_appendR)
qed

lemma made_by_backup_not_candidate:
  assumes "made_by_backup n"
  shows "\<not> endswith n ''.backup_''"
proof
  assume e: "endswith n ''.backup_''"
  obtain file_path dt where n: "n = os_path_basename file_path @ ''.backup_'' @ strftime dt"
    using assms by (auto simp: made_by_backup_def)
  obtain xs where "strftime dt = xs @ [digit (second dt)]"
    using strftime_last by blast
  then have "last n = digit (second dt)"
    using n by simp
  moreover have "last n = CHR ''_''"
    using endswith_last [OF e] by simp
  ultimately show False
    using digit_not_underscore [of "second dt"] by simp
qed

lemma listdir_iff:
  "n \<in> set (os_listdir st d) \<longleftrightarrow>
     n \<noteq> [] \<and> CHR ''/'' \<notin> set n \<and>
     (\<exists>p \<in> fst ` set st. startswith p (dir_prefix d) \<and> n = drop (length (dir_prefix d)) p)"
  by (auto simp: os_listdir_def)

lemma keys_write_file: "fst ` set (write_file cm t p bs st) = insert p (fst ` set st)"
  by (simp add: write_file_def dom_update split: option.splits)

lemma keys_copy2: "fst ` set (snd (shutil_copy2 io cm t src dst st)) \<subseteq> insert dst (fst ` set st)"
  by (auto simp: shutil_copy2_def dom_update keys_write_file split: option.splits copy_io.splits)

lemma join_dir_prefix:
  assumes "d \<noteq> []" and "CHR ''/'' \<notin> set n"
  shows "os_path_join d n = dir_prefix d @ n"
proof -
  have "\<not> startswith n ''/''"
    using assms(2) by (cases n) (auto simp: startswith_def)
  then show ?thesis
    using assms(1) by (simp add: os_path_join_def dir_prefix_def)
qed

lemma listdir_after_backup:
  assumes "backup_path cfg = Some bc"
    and "\<forall>n \<in> set (os_listdir (fs s) bc). made_by_backup n"
    and "n \<in> set (os_listdir (fs (snd (create_backup_op cfg e p s))) bc)"
  shows "made_by_backup n"
proof (cases "bc = []")
  case True
  then show ?thesis
    using assms by (simp add: create_backup_op_def)
next
  case False
  define name where "name = os_path_basename p @ ''.backup_'' @ strftime (now e)"
  define b where "b = os_path_join bc name"
  have noslash: "CHR ''/'' \<notin> set name"
    using basename_no_slash [of p] strftime_no_slash [of "now e"] by (simp add: name_def)
  have b: "b = dir_prefix bc @ name"
    unfolding b_def using join_dir_prefix [OF False noslash] .
  have mb: "made_by_backup name"
    unfolding made_by_backup_def name_def by blast
  have fs': "fs (snd (create_backup_op cfg e p s)) =
     snd (shutil_copy2 (copy2_io e (trace s) p b) (create_mode e) (now_mtime e) p b (fs s))"
    using assms(1) False
    by (simp add: create_backup_op_def Let_def b_def name_def split: prod.splits)
  obtain q where q: "q \<in> fst ` set (fs (snd (create_backup_op cfg e p s)))"
    "startswith q (dir_prefix bc)" "n = drop (length (dir_prefix bc)) q"
    and n: "n \<noteq> []" "CHR ''/'' \<notin> set n"
    using assms(3) unfolding listdir_iff by blast
  have "q = b \<or> q \<in> fst ` set (fs s)"
    using q(1) keys_copy2 [of "copy2_io e (trace s) p b" "create_mode e" "now_mtime e" p b "fs s"]
    unfolding fs' by blast
  then show ?thesis
  proof
    assume "q = b"
    then have "n = name" using q(3) b by simp
    then show ?thesis using mb by simp
  next
    assume "q \<in> fst ` set (fs s)"
    then have "n \<in> set (os_listdir (fs s) bc)"
      unfolding listdir_iff using q n by blast
    then show ?thesis using assms(2) by blast
  qed
qed

lemma no_candidates:
  assumes "\<forall>n \<in> set (os_listdir st bc). made_by_backup n"
  shows "latest_backup st bc p = Some None"
proof -
  have "backup_files_for st bc p = []"
    using assms made_by_backup_not_candidate
    by (auto simp: backup_files_for_def filter_empty_conv)
  then show ?thesis
    by (simp add: latest_backup_def)
qed

lemma identify_backup_none:
  assumes "\<forall>bc. backup_path cfg = Some bc \<longrightarrow> (\<forall>n \<in> set (os_listdir (fs s) bc). made_by_backup n)"
  shows "fst (identify_backup cfg e p s) = Some None"
proof -
  obtain ok s1 where cb: "create_backup_op cfg e p s = (ok, s1)"
    by (cases "create_backup_op cfg e p s")
  have "latest_backup (fs s1) bc p = Some None" if "backup_path cfg = Some bc" for bc
  proof -
    have "\<forall>n \<in> set (os_listdir (fs s1) bc). made_by_backup n"
      using listdir_after_backup [OF that, of s _ e p] assms that cb by auto
    then show ?thesis by (rule no_candidates)
  qed
  then show ?thesis
    using cb by (auto simp: identify_backup_def split: option.splits bool.splits)
qed

lemma after_install_plain:
  "after_install cfg e p None s =
     (case restart_openvpn_service cfg e s of
        (False, s1) \<Rightarrow> (False, s1)
      | (True, s1) \<Rightarrow>
          if get_default (check_connectivity cfg) True
          then check_openvpn_connectivity cfg e s1 else (True, s1))"
  by (auto simp: after_install_def split: prod.splits bool.splits)

lemma after_install_plain_log:
  "Log m \<in> set (trace (snd (after_install cfg e p None s))) \<longleftrightarrow> Log m \<in> set (trace s)"
proof -
  obtain r1 s1 where r: "restart_openvpn_service cfg e s = (r1, s1)"
    by (cases "restart_openvpn_service cfg e s")
  have t1: "Log m \<in> set (trace s1) \<longleftrightarrow> Log m \<in> set (trace s)"
    using restart_log [of m cfg e s] r by simp
  have t2: "Log m \<in> set (trace (snd (check_openvpn_connectivity cfg e s1))) \<longleftrightarrow>
              Log m \<in> set (trace s)"
    using check_log [of m cfg e s1] t1 by simp
  show ?thesis
    using r t1 t2 by (cases r1) (simp_all add: after_install_plain)
qed

text \<open>
  C2: when every name in the backup directory was given by \<open>_create_backup\<close>, the search in
  \<open>_download_and_install_ovpn\<close> leaves \<open>backup_file\<close> at \<open>None\<close> (the backup the run itself
  makes has such a name too); the run never enters \<open>_rollback_configuration\<close> (its first log
  line is not written); and with the candidate the search returned, what follows the install
  is just the restart and the connectivity check: a failure of either is the result of the
  run.
\<close>

theorem created_backups_never_roll_back:
  assumes "\<forall>bc. backup_path cfg = Some bc \<longrightarrow>
             (\<forall>n \<in> set (os_listdir (fs s) bc). made_by_backup n)"
  shows "fst (identify_backup cfg e p s) = Some None \<and>
         (Log Rollback_started \<in> set (trace (snd (download_and_install_ovpn cfg e p s))) \<longrightarrow>
            Log Rollback_started \<in> set (trace s)) \<and>
         (\<forall>backup_file s3.
            fst (identify_backup cfg e p s) = Some backup_file \<longrightarrow>
            after_install cfg e p backup_file s3 =
              (case restart_openvpn_service cfg e s3 of
                 (False, s4) \<Rightarrow> (False, s4)
               | (True, s4) \<Rightarrow>
                   if get_default (check_connectivity cfg) True
                   then check_openvpn_connectivity cfg e s4 else (True, s4)))"
proof -
  have none: "fst (identify_backup cfg e p s) = Some None"
    using assms by (rule identify_backup_none)
  obtain s1 where ib: "identify_backup cfg e p s = (Some None, s1)"
    using none by (cases "identify_backup cfg e p s") simp
  have t1: "Log Rollback_started \<in> set (trace s1) \<Longrightarrow> Log Rollback_started \<in> set (trace s)"
    using identify_backup_log [of Rollback_started cfg e p s] ib by auto
  obtain ok s2 where dl:
    "download_ovpn_file e (remote_path cfg) (remote_filename cfg) (p @ ''.new'') s1 = (ok, s2)"
    by (cases "download_ovpn_file e (remote_path cfg) (remote_filename cfg) (p @ ''.new'') s1")
  have t2: "Log Rollback_started \<in> set (trace s2) \<Longrightarrow> Log Rollback_started \<in> set (trace s1)"
    using download_log [of Rollback_started e "remote_path cfg" "remote_filename cfg"
        "p @ ''.new''" s1] dl by simp
  obtain ir s3 where ins: "install_staged e p s2 = (ir, s3)"
    by (cases "install_staged e p s2")
  have t3: "Log Rollback_started \<in> set (trace s3) \<Longrightarrow> Log Rollback_started \<in> set (trace s2)"
    using install_staged_log [of Rollback_started e p s2] ins by auto
  have quiet: "Log Rollback_started \<in> set (trace (snd (download_and_install_ovpn cfg e p s))) \<longrightarrow>
                 Log Rollback_started \<in> set (trace s)"
  proof (cases ok)
    case False
    then show ?thesis
      using ib dl t1 t2 by (simp add: download_and_install_ovpn_def)
  next
    case True
    show ?thesis
    proof (cases ir)
      case Installed
      then show ?thesis
        using ib dl True ins t1 t2 t3 after_install_plain_log [of Rollback_started cfg e p s3]
        by (simp add: download_and_install_ovpn_def)
    next
      case Refused
      then show ?thesis
        using ib dl True ins t1 t2 t3 by (simp add: download_and_install_ovpn_def)
    next
      case Install_raised
      then show ?thesis
        using ib dl True ins t1 t2 t3 handler_trace [of p s3]
        by (simp add: download_and_install_ovpn_def)
    qed
  qed
  show ?thesis
    using none quiet by (simp add: after_install_plain)
qed

lemma example_backup_names:
  "made_by_backup ''client.conf.backup_20231230_010101''"
  "made_by_backup ''client.conf.backup_20240101_120000''"
  "made_by_backup ''client.conf.backup_20231231_235959''"
proof -
  have a: "os_path_basename ''/etc/openvpn/client.conf'' @ ''.backup_'' @
        strftime \<lparr>year = 2023, month = 12, day = 30, hour = 1, minute = 1, second = 1\<rparr> =
        ''client.conf.backup_20231230_010101''"
    by code_simp
  have b: "os_path_basename ''/etc/openvpn/client.conf'' @ ''.backup_'' @
        strftime \<lparr>year = 2024, month = 1, day = 1, hour = 12, minute = 0, second = 0\<rparr> =
        ''client.conf.backup_20240101_120000''"
    by code_simp
  have c: "os_path_basename ''/etc/openvpn/client.conf'' @ ''.backup_'' @
        strftime \<lparr>year = 2023, month = 12, day = 31, hour = 23, minute = 59, second = 59\<rparr> =
        ''client.conf.backup_20231231_235959''"
    by code_simp
  show "made_by_backup ''client.conf.backup_20231230_010101''"
    unfolding made_by_backup_def using a [symmetric] by blast
  show "made_by_backup ''client.conf.backup_20240101_120000''"
    unfolding made_by_backup_def using b [symmetric] by blast
  show "made_by_backup ''client.conf.backup_20231231_235959''"
    unfolding made_by_backup_def using c [symmetric] by blast
qed

theorem created_backups_never_roll_back_witness:
  "fst (identify_backup example_config inactive_env ''/etc/openvpn/client.conf'' backed_up_state) =
     Some None \<and>
   Log Rollback_started \<notin>
     set (trace (snd (download_and_install_ovpn example_config inactive_env
                        ''/etc/openvpn/client.conf'' backed_up_state))) \<and>
   \<not> fst (after_install example_config inactive_env ''/etc/openvpn/client.conf'' None
            backed_up_state)"
proof -
  have r: "\<not> fst (restart_openvpn_service example_config inactive_env backed_up_state)"
    by code_simp
  have listing: "os_listdir (fs backed_up_state) ''/backup'' =
     [''client.conf.backup_20231230_010101'', ''client.conf.backup_20240101_120000'',
      ''client.conf.backup_20231231_235959'']"
    by code_simp
  have h: "\<forall>bc. backup_path example_config = Some bc \<longrightarrow>
             (\<forall>n \<in> set (os_listdir (fs backed_up_state) bc). made_by_backup n)"
    using listing example_backup_names by (simp add: example_config_def)
  have t: "Log Rollback_started \<notin> set (trace backed_up_state)"
    by (simp add: backed_up_state_def)
  show ?thesis
    using created_backups_never_roll_back
            [OF h, of inactive_env "''/etc/openvpn/client.conf''"] t r
    by (auto split: prod.splits)
qed

section \<open>The install step installs\<close>

lemma listdir_resolves:
  assumes "bc \<noteq> []" and "x \<in> set (os_listdir st bc)"
  shows "map_of st (os_path_join bc x) \<noteq> None"
proof -
  obtain q where q: "q \<in> fst ` set st" "startswith q (dir_prefix bc)"
    "x = drop (length (dir_prefix bc)) q" and x: "CHR ''/'' \<notin> set x"
    using assms(2) unfolding listdir_iff by blast
  have "q = dir_prefix bc @ x"
    using q(2,3) unfolding startswith_def by (metis append_take_drop_id)
  then have "os_path_join bc x = q"
    using join_dir_prefix [OF assms(1) x] by simp
  then show ?thesis
    using q(1) by (simp add: map_of_eq_None_iff)
qed

lemma latest_backup_returns:
  assumes "bc \<noteq> []"
  shows "latest_backup st bc p \<noteq> None"
proof -
  define files where "files = backup_files_for st bc p"
  have sub: "set files \<subseteq> set (os_listdir st bc)"
    by (auto simp: files_def backup_files_for_def)
  have "os_path_getmtime st (os_path_join bc x) \<noteq> None" if "x \<in> set files" for x
    using that sub listdir_resolves [OF assms, of x st] by (auto simp: os_path_getmtime_def)
  then have known: "None \<notin> set (map (\<lambda>x. os_path_getmtime st (os_path_join bc x)) files)"
    by force
  have sorted: "files \<noteq> [] \<Longrightarrow> sort_key k files \<noteq> []" for k :: "string \<Rightarrow> int"
    by (metis length_sort length_0_conv)
  show ?thesis
    using known sorted
    by (auto simp: latest_backup_def files_def [symmetric] Let_def split: list.splits)
qed

lemma identify_backup_returns: "fst (identify_backup cfg e p s) \<noteq> None"
proof -
  have "False" if "latest_backup st bc p = None" and "bc \<noteq> []" for st bc
    using that latest_backup_returns [of bc st p] by simp
  then show ?thesis
    by (auto simp: identify_backup_def split: prod.splits bool.splits option.splits)
qed

lemma attempt_fs: "fs (snd (connectivity_attempt cfg e mx iv a s)) = fs s"
  by (simp add: connectivity_attempt_def retry_or_fail_def after_exception_def emit_def Let_def
      split: proc.splits)

lemma loop_fs: "fs (snd (connectivity_loop cfg e mx iv as s)) = fs s"
proof (induction as arbitrary: s)
  case Nil
  then show ?case by simp
next
  case (Cons a as)
  obtain r s1 where a: "connectivity_attempt cfg e mx iv a s = (r, s1)"
    by (cases "connectivity_attempt cfg e mx iv a s")
  have "fs s1 = fs s"
    using attempt_fs [of cfg e mx iv a s] a by simp
  then show ?case
    using a Cons.IH [of s1] by (cases r) simp_all
qed

lemma check_fs: "fs (snd (check_openvpn_connectivity cfg e s)) = fs s"
  by (simp add: check_openvpn_connectivity_def loop_fs Let_def)

lemma rollback_logs_start:
  "Log Rollback_started \<in> set (trace (snd (rollback_configuration cfg e b p s)))"
proof -
  have rs: "Log Rollback_started \<in> set (trace (snd (restart_openvpn_service cfg e s')))"
    if "Log Rollback_started \<in> set (trace s')" for s'
    using that restart_log [of Rollback_started cfg e s'] by simp
  have rs': "restart_openvpn_service cfg e s' = (r, s'') \<Longrightarrow>
             Log Rollback_started \<in> set (trace s') \<Longrightarrow> Log Rollback_started \<in> set (trace s'')"
    for s' r s''
    using rs [of s'] by simp
  show ?thesis
    by (auto simp: rollback_configuration_def emit_def Let_def
        split: if_splits option.splits prod.splits bool.splits intro: rs')
qed

lemma rollback_log_mono:
  assumes "Log m \<in> set (trace s)"
  shows "Log m \<in> set (trace (snd (rollback_configuration cfg e b p s)))"
proof -
  have rs': "restart_openvpn_service cfg e s' = (r, s'') \<Longrightarrow>
             Log m \<in> set (trace s') \<Longrightarrow> Log m \<in> set (trace s'')"
    for s' r s''
    using restart_log [of m cfg e s'] by simp
  show ?thesis
    using assms
    by (auto simp: rollback_configuration_def emit_def Let_def
        split: if_splits option.splits prod.splits bool.splits intro: rs')
qed

lemma after_install_log_mono:
  assumes "Log m \<in> set (trace s)"
  shows "Log m \<in> set (trace (snd (after_install cfg e p bf s)))"
proof -
  obtain r1 s1 where r: "restart_openvpn_service cfg e s = (r1, s1)"
    by (cases "restart_openvpn_service cfg e s")
  have t1: "Log m \<in> set (trace s1)"
    using restart_log [of m cfg e s] r assms by simp
  obtain r2 s2 where c: "check_openvpn_connectivity cfg e s1 = (r2, s2)"
    by (cases "check_openvpn_connectivity cfg e s1")
  have t2: "Log m \<in> set (trace s2)"
    using check_log [of m cfg e s1] c t1 by simp
  show ?thesis
    using r c t1 t2 rollback_log_mono [of m s1 cfg e _ p] rollback_log_mono [of m s2 cfg e _ p]
    by (auto simp: after_install_def split: if_splits option.splits bool.splits)
qed

lemma after_install_fs:
  assumes "Log Rollback_started \<notin> set (trace (snd (after_install cfg e p bf s)))"
  shows "fs (snd (after_install cfg e p bf s)) = fs s"
proof -
  obtain r1 s1 where r: "restart_openvpn_service cfg e s = (r1, s1)"
    by (cases "restart_openvpn_service cfg e s")
  have f1: "fs s1 = fs s"
    using restart_fs [of cfg e s] r by simp
  obtain r2 s2 where c: "check_openvpn_connectivity cfg e s1 = (r2, s2)"
    by (cases "check_openvpn_connectivity cfg e s1")
  have f2: "fs s2 = fs s"
    using check_fs [of cfg e s1] c f1 by simp
  show ?thesis
    using assms r c f1 f2 rollback_logs_start [of cfg e _ p s1]
      rollback_logs_start [of cfg e _ p s2]
    by (auto simp: after_install_def split: if_splits option.splits bool.splits)
qed

lemma install_staged_installs:
  assumes "map_of (fs s) (p @ ''.new'') = Some f" and "content f \<noteq> []"
    and "\<forall>op. \<not> os_error e (trace s) op"
  shows "fst (install_staged e p s) = Installed \<and>
         map_of (fs (snd (install_staged e p s))) p = Some (f\<lparr>mode := 384\<rparr>) \<and>
         map_of (fs (snd (install_staged e p s))) (p @ ''.new'') = None \<and>
         trace (snd (install_staged e p s)) = trace s @ [Log Config_updated]"
  using assms
  by (auto simp: install_staged_def os_path_getsize_def os_remove_def os_path_exists_def
      shutil_move_def os_chmod_def io_call_def emit_def delete_conv' update_conv' Let_def)

lemma install_effect:
  assumes "ftp_retr e (trace (snd (identify_backup cfg e p s))) (remote_path cfg)
             (remote_filename cfg) = Retr_complete bs"
    and "bs \<noteq> []"
    and "\<forall>op. \<not> os_error e (trace (snd (identify_backup cfg e p s)) @ [Ftp_retr (p @ ''.new'')]) op"
  shows "Log Config_updated \<in> set (trace (snd (download_and_install_ovpn cfg e p s))) \<and>
         (Log Rollback_started \<notin> set (trace (snd (download_and_install_ovpn cfg e p s))) \<longrightarrow>
            (\<exists>f. map_of (fs (snd (download_and_install_ovpn cfg e p s))) p = Some f \<and>
                 content f = bs \<and> mode f = 384) \<and>
            map_of (fs (snd (download_and_install_ovpn cfg e p s))) (p @ ''.new'') = None)"
proof -
  obtain bf s1 where ib: "identify_backup cfg e p s = (Some bf, s1)"
    using identify_backup_returns [of cfg e p s] by (cases "identify_backup cfg e p s") auto
  define s2 where
    "s2 = snd (download_ovpn_file e (remote_path cfg) (remote_filename cfg) (p @ ''.new'') s1)"
  have retr: "ftp_retr e (trace s1) (remote_path cfg) (remote_filename cfg) = Retr_complete bs"
    using assms(1) ib by simp
  have dl: "download_ovpn_file e (remote_path cfg) (remote_filename cfg) (p @ ''.new'') s1 =
              (True, s2)"
    using retr by (simp add: s2_def download_ovpn_file_def Let_def)
  have fs2: "fs s2 = write_file (create_mode e) (now_mtime e) (p @ ''.new'') bs (fs s1)"
    and tr2: "trace s2 = trace s1 @ [Ftp_retr (p @ ''.new'')]"
    using retr by (simp_all add: s2_def download_ovpn_file_def emit_def Let_def)
  obtain f where f: "map_of (fs s2) (p @ ''.new'') = Some f" "content f = bs"
    using map_of_write_file_same [of "create_mode e" "now_mtime e" "p @ ''.new''" bs "fs s1"] fs2
    by auto
  have quiet: "\<forall>op. \<not> os_error e (trace s2) op"
    using assms(3) ib tr2 by simp
  have nonempty: "content f \<noteq> []"
    using f(2) assms(2) by simp
  obtain s3 where s3: "install_staged e p s2 = (Installed, s3)"
    and tgt: "map_of (fs s3) p = Some (f\<lparr>mode := 384\<rparr>)"
    and gone: "map_of (fs s3) (p @ ''.new'') = None"
    and tr3: "trace s3 = trace s2 @ [Log Config_updated]"
    using install_staged_installs [OF f(1) nonempty quiet]
    by (cases "install_staged e p s2") auto
  have run: "download_and_install_ovpn cfg e p s = after_install cfg e p bf s3"
    using ib dl s3 by (simp add: download_and_install_ovpn_def)
  have logged: "Log Config_updated \<in> set (trace (snd (after_install cfg e p bf s3)))"
    using after_install_log_mono [of Config_updated s3 cfg e p bf] tr3 by simp
  have kept: "fs (snd (after_install cfg e p bf s3)) = fs s3"
    if "Log Rollback_started \<notin> set (trace (snd (after_install cfg e p bf s3)))"
    using that by (rule after_install_fs)
  show ?thesis
    using run logged kept tgt gone f(2) by auto
qed

lemma with_ftp_quit_state:
  "fs (snd (with_ftp_quit e r)) = fs (snd r) \<and>
   trace (snd (with_ftp_quit e r)) = trace (snd r) @ [Ftp_quit]"
  by (cases r) (simp add: with_ftp_quit_def emit_def)

section \<open>ChangeDetector: size first, digest second\<close>

lemma detection_order:
  assumes "ftp_connect e"
    and "ftp_list e (trace s @ [Ftp_connect]) (remote_path cfg) (remote_filename cfg) =
           Remote_size remote_size"
  shows "(map_of (fs s) (local_path_of cfg) = None \<longrightarrow>
            check_and_update_config cfg e s =
              with_ftp_quit e
                (download_and_install_ovpn cfg e (local_path_of cfg)
                   (s\<lparr>trace := trace s @ [Ftp_connect, Ftp_list, Log Local_missing]\<rparr>))) \<and>
         (\<forall>f. map_of (fs s) (local_path_of cfg) = Some f \<and> length (content f) \<noteq> remote_size \<longrightarrow>
            check_and_update_config cfg e s =
              with_ftp_quit e
                (download_and_install_ovpn cfg e (local_path_of cfg)
                   (s\<lparr>trace := trace s @ [Ftp_connect, Ftp_list, Log Sizes_differ]\<rparr>))) \<and>
         (\<forall>f bs. map_of (fs s) (local_path_of cfg) = Some f \<and> length (content f) = remote_size \<and>
            ftp_retr e (trace s @ [Ftp_connect, Ftp_list]) (remote_path cfg) (remote_filename cfg) =
              Retr_complete bs \<and>
            md5 e bs = md5 e (content f) \<longrightarrow>
            check_and_update_config cfg e s =
              with_ftp_quit e
                (True,
                 s\<lparr>fs := AList.delete (local_path_of cfg @ ''.temp'')
                         (write_file (create_mode e) (now_mtime e)
                            (local_path_of cfg @ ''.temp'') bs (fs s)),
                  trace := trace s @ [Ftp_connect, Ftp_list,
                            Ftp_retr (local_path_of cfg @ ''.temp''), Log Config_up_to_date]\<rparr>)) \<and>
         (\<forall>f bs. map_of (fs s) (local_path_of cfg) = Some f \<and> length (content f) = remote_size \<and>
            ftp_retr e (trace s @ [Ftp_connect, Ftp_list]) (remote_path cfg) (remote_filename cfg) =
              Retr_complete bs \<and>
            md5 e bs \<noteq> md5 e (content f) \<longrightarrow>
            check_and_update_config cfg e s =
              with_ftp_quit e
                (download_and_install_ovpn cfg e (local_path_of cfg)
                   (s\<lparr>fs := AList.delete (local_path_of cfg @ ''.temp'')
                           (write_file (create_mode e) (now_mtime e)
                              (local_path_of cfg @ ''.temp'') bs (fs s)),
                    trace := trace s @ [Ftp_connect, Ftp_list,
                              Ftp_retr (local_path_of cfg @ ''.temp''), Log Hashes_differ]\<rparr>)))"
proof -
  have other: "map_of (write_file cm t (local_path_of cfg @ ''.temp'') bs st) (local_path_of cfg)
                 = map_of st (local_path_of cfg)" for cm t bs st
    by (rule map_of_write_file_other) simp
  have same: "map_of (write_file cm t (local_path_of cfg @ ''.temp'') bs st)
                (local_path_of cfg @ ''.temp'') \<noteq> None" for cm t bs st
    using map_of_write_file_same [of cm t "local_path_of cfg @ ''.temp''" bs st] by auto
  show ?thesis
    using assms
    apply (intro conjI allI impI)
       apply (simp add: check_and_update_config_def emit_def os_path_getsize_def Let_def)
      apply (simp add: check_and_update_config_def emit_def os_path_getsize_def Let_def)
    subgoal for f bs
      using map_of_write_file_same [of "create_mode e" "now_mtime e" "local_path_of cfg @ ''.temp''" bs "fs s"]
      by (auto simp add: check_and_update_config_def emit_def os_path_getsize_def Let_def
        download_ovpn_file_def calculate_file_hash_def os_remove_def os_path_exists_def other same)
    subgoal for f bs
      using map_of_write_file_same [of "create_mode e" "now_mtime e" "local_path_of cfg @ ''.temp''" bs "fs s"]
      by (auto simp add: check_and_update_config_def emit_def os_path_getsize_def Let_def
        download_ovpn_file_def calculate_file_hash_def os_remove_def os_path_exists_def other same)
    done
qed

text \<open>
  C8: with the FTP session open and the remote size known, \<open>check_and_update_config\<close> does
  one of four things. If there is no local file it goes straight to
  \<open>_download_and_install_ovpn\<close>. If the local size differs from the remote size it goes
  straight to \<open>_download_and_install_ovpn\<close> too, nothing having been fetched. If the sizes
  are equal and the remote file is fetched into the \<open>.temp\<close> file, that file is removed
  again and the digests decide: equal digests end the run with \<open>True\<close> and no install,
  different digests lead to \<open>_download_and_install_ovpn\<close>. In every case the FTP session is
  closed last. And \<open>_download_and_install_ovpn\<close> installs: from whatever state it is entered,
  when the transfer into the \<open>.new\<close> file completes with a content that is not empty and the
  three calls on the target path do not raise, the update is logged as installed and, unless
  a rollback is started, the run ends with the target holding that content with mode
  \<open>0o600\<close> and with no \<open>.new\<close> file.
\<close>

theorem change_detection_cheap_first:
  assumes "ftp_connect e"
    and "ftp_list e (trace s @ [Ftp_connect]) (remote_path cfg) (remote_filename cfg) =
           Remote_size remote_size"
  shows "(map_of (fs s) (local_path_of cfg) = None \<longrightarrow>
            check_and_update_config cfg e s =
              with_ftp_quit e
                (download_and_install_ovpn cfg e (local_path_of cfg)
                   (s\<lparr>trace := trace s @ [Ftp_connect, Ftp_list, Log Local_missing]\<rparr>))) \<and>
         (\<forall>f. map_of (fs s) (local_path_of cfg) = Some f \<and> length (content f) \<noteq> remote_size \<longrightarrow>
            check_and_update_config cfg e s =
              with_ftp_quit e
                (download_and_install_ovpn cfg e (local_path_of cfg)
                   (s\<lparr>trace := trace s @ [Ftp_connect, Ftp_list, Log Sizes_differ]\<rparr>))) \<and>
         (\<forall>f bs. map_of (fs s) (local_path_of cfg) = Some f \<and> length (content f) = remote_size \<and>
            ftp_retr e (trace s @ [Ftp_connect, Ftp_list]) (remote_path cfg) (remote_filename cfg) =
              Retr_complete bs \<and>
            md5 e bs = md5 e (content f) \<longrightarrow>
            check_and_update_config cfg e s =
              with_ftp_quit e
                (True,
                 s\<lparr>fs := AList.delete (local_path_of cfg @ ''.temp'')
                         (write_file (create_mode e) (now_mtime e)
                            (local_path_of cfg @ ''.temp'') bs (fs s)),
                  trace := trace s @ [Ftp_connect, Ftp_list,
                            Ftp_retr (local_path_of cfg @ ''.temp''), Log Config_up_to_date]\<rparr>)) \<and>
         (\<forall>f bs. map_of (fs s) (local_path_of cfg) = Some f \<and> length (content f) = remote_size \<and>
            ftp_retr e (trace s @ [Ftp_connect, Ftp_list]) (remote_path cfg) (remote_filename cfg) =
              Retr_complete bs \<and>
            md5 e bs \<noteq> md5 e (content f) \<longrightarrow>
            check_and_update_config cfg e s =
              with_ftp_quit e
                (download_and_install_ovpn cfg e (local_path_of cfg)
                   (s\<lparr>fs := AList.delete (local_path_of cfg @ ''.temp'')
                           (write_file (create_mode e) (now_mtime e)
                              (local_path_of cfg @ ''.temp'') bs (fs s)),
                    trace := trace s @ [Ftp_connect, Ftp_list,
                              Ftp_retr (local_path_of cfg @ ''.temp''), Log Hashes_differ]\<rparr>))) \<and>
         (\<forall>s' bs.
            ftp_retr e (trace (snd (identify_backup cfg e (local_path_of cfg) s')))
              (remote_path cfg) (remote_filename cfg) = Retr_complete bs \<and>
            bs \<noteq> [] \<and>
            (\<forall>op. \<not> os_error e
                      (trace (snd (identify_backup cfg e (local_path_of cfg) s')) @
                       [Ftp_retr (local_path_of cfg @ ''.new'')]) op) \<longrightarrow>
            Log Config_updated \<in>
              set (trace (snd (with_ftp_quit e
                     (download_and_install_ovpn cfg e (local_path_of cfg) s')))) \<and>
            (Log Rollback_started \<notin>
               set (trace (snd (with_ftp_quit e
                      (download_and_install_ovpn cfg e (local_path_of cfg) s')))) \<longrightarrow>
               (\<exists>f. map_of (fs (snd (with_ftp_quit e
                             (download_and_install_ovpn cfg e (local_path_of cfg) s'))))
                       (local_path_of cfg) = Some f \<and>
                    content f = bs \<and> mode f = 384) \<and>
               map_of (fs (snd (with_ftp_quit e
                          (download_and_install_ovpn cfg e (local_path_of cfg) s'))))
                 (local_path_of cfg @ ''.new'') = None))"
proof -
  have installs: "Log Config_updated \<in>
              set (trace (snd (with_ftp_quit e
                     (download_and_install_ovpn cfg e (local_path_of cfg) s')))) \<and>
            (Log Rollback_started \<notin>
               set (trace (snd (with_ftp_quit e
                      (download_and_install_ovpn cfg e (local_path_of cfg) s')))) \<longrightarrow>
               (\<exists>f. map_of (fs (snd (with_ftp_quit e
                             (download_and_install_ovpn cfg e (local_path_of cfg) s'))))
                       (local_path_of cfg) = Some f \<and>
                    content f = bs \<and> mode f = 384) \<and>
               map_of (fs (snd (with_ftp_quit e
                          (download_and_install_ovpn cfg e (local_path_of cfg) s'))))
                 (local_path_of cfg @ ''.new'') = None)"
    if "ftp_retr e (trace (snd (identify_backup cfg e (local_path_of cfg) s')))
              (remote_path cfg) (remote_filename cfg) = Retr_complete bs"
      and "bs \<noteq> []"
      and "\<forall>op. \<not> os_error e
                      (trace (snd (identify_backup cfg e (local_path_of cfg) s')) @
                       [Ftp_retr (local_path_of cfg @ ''.new'')]) op"
    for s' bs
    using install_effect [OF that]
      with_ftp_quit_state [of e "download_and_install_ovpn cfg e (local_path_of cfg) s'"]
    by simp
  show ?thesis
    using detection_order [OF assms] installs by blast
qed

theorem change_detection_cheap_first_witness:
  "check_and_update_config example_config calm_env empty_state =
     with_ftp_quit calm_env
       (download_and_install_ovpn example_config calm_env (local_path_of example_config)
          (empty_state\<lparr>trace := [Ftp_connect, Ftp_list, Log Local_missing]\<rparr>)) \<and>
   check_and_update_config example_config bigger_remote_env installed_state =
     with_ftp_quit bigger_remote_env
       (download_and_install_ovpn example_config bigger_remote_env (local_path_of example_config)
          (installed_state\<lparr>trace := [Ftp_connect, Ftp_list, Log Sizes_differ]\<rparr>)) \<and>
   check_and_update_config example_config same_content_env installed_state =
     with_ftp_quit same_content_env
       (True,
        installed_state\<lparr>fs := AList.delete (local_path_of example_config @ ''.temp'')
                 (write_file 420 1000 (local_path_of example_config @ ''.temp'') ''old-config''
                    (fs installed_state)),
          trace := [Ftp_connect, Ftp_list,
                    Ftp_retr (local_path_of example_config @ ''.temp''), Log Config_up_to_date]\<rparr>) \<and>
   check_and_update_config example_config calm_env installed_state =
     with_ftp_quit calm_env
       (download_and_install_ovpn example_config calm_env (local_path_of example_config)
          (installed_state\<lparr>fs := AList.delete (local_path_of example_config @ ''.temp'')
                 (write_file 420 1000 (local_path_of example_config @ ''.temp'') ''new-config''
                    (fs installed_state)),
             trace := [Ftp_connect, Ftp_list,
                       Ftp_retr (local_path_of example_config @ ''.temp''), Log Hashes_differ]\<rparr>)) \<and>
   (\<exists>f. map_of (fs (snd (check_and_update_config example_config calm_env empty_state)))
           (local_path_of example_config) = Some f \<and>
        content f = ''new-config'' \<and> mode f = 384) \<and>
   map_of (fs (snd (check_and_update_config example_config calm_env empty_state)))
     (local_path_of example_config @ ''.new'') = None"
proof -
  have lp: "local_path_of example_config = ''/etc/openvpn/client.conf''"
    by (simp add: local_path_of_def example_config_def os_path_join_def startswith_def
        endswith_def)
  have missing: "map_of (fs empty_state) (local_path_of example_config) = None"
    by (simp add: empty_state_def)
  have present: "map_of (fs installed_state) (local_path_of example_config) = Some old_config_file"
    by (simp add: lp installed_state_def)
  have size: "length (content old_config_file) = 10"
    by (simp add: old_config_file_def)
  have a: "check_and_update_config example_config calm_env empty_state =
     with_ftp_quit calm_env
       (download_and_install_ovpn example_config calm_env (local_path_of example_config)
          (empty_state\<lparr>trace := [Ftp_connect, Ftp_list, Log Local_missing]\<rparr>))"
    using change_detection_cheap_first [of calm_env empty_state example_config 10] missing
    by (simp add: calm_env_def empty_state_def)
  have b: "check_and_update_config example_config bigger_remote_env installed_state =
     with_ftp_quit bigger_remote_env
       (download_and_install_ovpn example_config bigger_remote_env (local_path_of example_config)
          (installed_state\<lparr>trace := [Ftp_connect, Ftp_list, Log Sizes_differ]\<rparr>))"
    using change_detection_cheap_first [of bigger_remote_env installed_state example_config 200]
      present size
    by (simp add: bigger_remote_env_def calm_env_def installed_state_def)
  have c: "check_and_update_config example_config same_content_env installed_state =
     with_ftp_quit same_content_env
       (True,
        installed_state\<lparr>fs := AList.delete (local_path_of example_config @ ''.temp'')
                 (write_file 420 1000 (local_path_of example_config @ ''.temp'') ''old-config''
                    (fs installed_state)),
          trace := [Ftp_connect, Ftp_list,
                    Ftp_retr (local_path_of example_config @ ''.temp''), Log Config_up_to_date]\<rparr>)"
    using change_detection_cheap_first [of same_content_env installed_state example_config 10]
      present size
    by (simp add: same_content_env_def calm_env_def installed_state_def old_config_file_def)
  have d: "check_and_update_config example_config calm_env installed_state =
     with_ftp_quit calm_env
       (download_and_install_ovpn example_config calm_env (local_path_of example_config)
          (installed_state\<lparr>fs := AList.delete (local_path_of example_config @ ''.temp'')
                 (write_file 420 1000 (local_path_of example_config @ ''.temp'') ''new-config''
                    (fs installed_state)),
             trace := [Ftp_connect, Ftp_list,
                       Ftp_retr (local_path_of example_config @ ''.temp''), Log Hashes_differ]\<rparr>))"
    using change_detection_cheap_first [of calm_env installed_state example_config 10]
      present size
    by (simp add: calm_env_def installed_state_def old_config_file_def)
  have conn: "ftp_connect calm_env"
    and list: "ftp_list calm_env (trace empty_state @ [Ftp_connect])
                 (remote_path example_config) (remote_filename example_config) = Remote_size 10"
    by (simp_all add: calm_env_def)
  have retr: "ftp_retr calm_env h (remote_path example_config) (remote_filename example_config) =
                Retr_complete ''new-config''" for h
    by (simp add: calm_env_def)
  have quiet: "\<not> os_error calm_env h op" for h op
    by (simp add: calm_env_def)
  have no_rollback: "Log Rollback_started \<notin>
      set (trace (snd (check_and_update_config example_config calm_env empty_state)))"
    by code_simp
  have e: "(\<exists>f. map_of (fs (snd (check_and_update_config example_config calm_env empty_state)))
           (local_path_of example_config) = Some f \<and>
        content f = ''new-config'' \<and> mode f = 384) \<and>
   map_of (fs (snd (check_and_update_config example_config calm_env empty_state)))
     (local_path_of example_config @ ''.new'') = None"
    using change_detection_cheap_first
            [OF conn list, THEN conjunct2, THEN conjunct2, THEN conjunct2, THEN conjunct2,
             THEN spec [where x = "empty_state\<lparr>trace := [Ftp_connect, Ftp_list, Log Local_missing]\<rparr>"],
             THEN spec [where x = "''new-config''"]]
      retr quiet no_rollback a
    by simp
  from a b c d e show ?thesis by blast
qed

end
